theory Spec2Isabelle
  imports Complex_Main "HOL-Library.Product_Lexorder" "HOL-Library.List_Lexorder"
    "HOL-Library.Char_ord" "HOL-Library.Multiset"
begin

section \<open>The data-ingestion service (Go)\<close>

text \<open>
  The service polls the OpenSky API once per airport and tick, decodes the JSON answer and
  turns every state array into an \<open>AircraftState\<close>. Go's \<open>float64\<close> is modelled
  by \<open>real\<close> and \<open>int64\<close> by \<open>int\<close>: no claim below depends on rounding or on
  overflow. A decoded \<open>interface{}\<close> value is one of the shapes \<open>encoding/json\<close>
  produces.
\<close>

datatype json =
    JNull
  | JBool bool
  | JNum real
  | JStr string
  | JArr "json list"
  | JObj "(string \<times> json) list"

record AirportBoundary =
  ICAO :: string
  Name :: string
  Latitude :: real
  Longitude :: real
  Radius :: real

definition airports :: "AirportBoundary list" where
  "airports =
     [\<lparr>ICAO = ''KRHV'', Name = ''Reid-Hillview'', Latitude = 37.3329, Longitude = -121.8195,
        Radius = 10\<rparr>,
      \<lparr>ICAO = ''KPAO'', Name = ''Palo Alto'', Latitude = 37.4613, Longitude = -122.1146,
        Radius = 10\<rparr>]"

record OpenSkyResponse =
  Time :: int
  States :: "json list list"

record AircraftState =
  Icao24 :: string
  Callsign :: string
  OriginCountry :: string
  Latitude :: real
  Longitude :: real
  Altitude :: real
  Velocity :: real
  Heading :: real
  VerticalRate :: real
  OnGround :: bool
  LastContact :: int
  TimePosition :: int
  Timestamp :: int
  AirportVicinity :: string

text \<open>
  The comma-ok type assertions \<open>v, _ := x.(T)\<close>: the zero value of \<open>T\<close> when \<open>x\<close>
  holds another type, and never a panic.
\<close>

definition assertString :: "json \<Rightarrow> string" where
  "assertString v = (case v of JStr s \<Rightarrow> s | _ \<Rightarrow> [])"

definition assertFloat64 :: "json \<Rightarrow> real" where
  "assertFloat64 v = (case v of JNum x \<Rightarrow> x | _ \<Rightarrow> 0)"

definition assertBool :: "json \<Rightarrow> bool" where
  "assertBool v = (case v of JBool b \<Rightarrow> b | _ \<Rightarrow> False)"

text \<open>The conversion \<open>int64(f)\<close> drops the fraction (towards zero).\<close>

definition int64 :: "real \<Rightarrow> int" where
  "int64 f = (if 0 \<le> f then \<lfloor>f\<rfloor> else \<lceil>f\<rceil>)"

text \<open>
  One iteration of the loop body of \<open>parseAircraftStates\<close> after the length check: the
  fields are read at their fixed indices, each optional one behind its \<open>!= nil\<close> guard.
  The source assigns \<open>stateArray[5].(float64)\<close> to the \<open>int64\<close> variable
  \<open>timePos\<close> directly; the model converts it the way the source converts
  \<open>lastContact\<close>.
\<close>

definition stateOf :: "int \<Rightarrow> string \<Rightarrow> json list \<Rightarrow> AircraftState" where
  "stateOf now airportICAO stateArray =
     (let icao24 = assertString (stateArray ! 0);
          callsign = assertString (stateArray ! 1);
          originCountry = assertString (stateArray ! 2);
          timePos = (if stateArray ! 5 \<noteq> JNull then int64 (assertFloat64 (stateArray ! 5)) else 0);
          lat = (if stateArray ! 6 \<noteq> JNull then assertFloat64 (stateArray ! 6) else 0);
          lon = (if stateArray ! 7 \<noteq> JNull then assertFloat64 (stateArray ! 7) else 0);
          alt = (if stateArray ! 8 \<noteq> JNull then assertFloat64 (stateArray ! 8) else 0);
          onGround = (if stateArray ! 9 \<noteq> JNull then assertBool (stateArray ! 9) else False);
          vel = (if stateArray ! 10 \<noteq> JNull then assertFloat64 (stateArray ! 10) else 0);
          hdg = (if stateArray ! 11 \<noteq> JNull then assertFloat64 (stateArray ! 11) else 0);
          vrate = (if stateArray ! 16 \<noteq> JNull then assertFloat64 (stateArray ! 16) else 0);
          lastContact = (if stateArray ! 4 \<noteq> JNull then int64 (assertFloat64 (stateArray ! 4)) else 0)
      in \<lparr>Icao24 = icao24, Callsign = callsign, OriginCountry = originCountry,
          Latitude = lat, Longitude = lon, Altitude = alt, Velocity = vel, Heading = hdg,
          VerticalRate = vrate, OnGround = onGround, LastContact = lastContact,
          TimePosition = timePos, Timestamp = now, AirportVicinity = airportICAO\<rparr>)"

text \<open>
  The \<open>for ... range response.States\<close> loop with its accumulator \<open>states\<close>:
  \<open>continue\<close> on an array shorter than 17, \<open>append\<close> otherwise. Every index read
  by \<open>stateOf\<close> is below 17, so the loop has no panicking branch.
\<close>

fun parseLoop :: "int \<Rightarrow> string \<Rightarrow> json list list \<Rightarrow> AircraftState list \<Rightarrow> AircraftState list" where
  "parseLoop now airportICAO [] states = states"
| "parseLoop now airportICAO (stateArray # rest) states =
     (if length stateArray < 17 then parseLoop now airportICAO rest states
      else parseLoop now airportICAO rest (states @ [stateOf now airportICAO stateArray]))"

definition parseAircraftStates :: "OpenSkyResponse \<Rightarrow> string \<Rightarrow> AircraftState list" where
  "parseAircraftStates response airportICAO =
     parseLoop (Time response) airportICAO (States response) []"

text \<open>
  The helper \<open>cos\<close> of the service. It reads \<open>time.Now().Nanosecond()\<close>; the clock
  reading is the explicit first argument of the model.
\<close>

definition cos_go :: "nat \<Rightarrow> real \<Rightarrow> real" where
  "cos_go nanosecond radians = real (nanosecond mod 10000) / 10000.0 * 0.1 + 0.9"

text \<open>
  \<open>fmt.Sprintf\<close> with the verb \<open>%f\<close>: sign, integer part, a point and six decimals
  of the value rounded at the sixth decimal.
\<close>

fun digits :: "nat \<Rightarrow> string" where
  "digits n =
     (if n < 10 then [''0123456789'' ! n]
      else digits (n div 10) @ [''0123456789'' ! (n mod 10)])"

definition fmt_f :: "real \<Rightarrow> string" where
  "fmt_f x =
     (let n = nat (round (\<bar>x\<bar> * 1000000));
          frac = digits (n mod 1000000)
      in (if x < 0 then ''-'' else []) @ digits (n div 1000000) @ ''.'' @
         drop (length frac) ''000000'' @ frac)"

text \<open>
  The bounding box of one airport and the query URL built from it, as the first lines of
  the loop body of \<open>processAircraftData\<close> compute them.
\<close>

definition latRange :: "AirportBoundary \<Rightarrow> real" where
  "latRange airport = Radius airport / 60.0"

definition lonRange :: "nat \<Rightarrow> AirportBoundary \<Rightarrow> real" where
  "lonRange nanosecond airport =
     latRange airport / cos_go nanosecond (AirportBoundary.Latitude airport * 0.0174533)"

definition url :: "nat \<Rightarrow> AirportBoundary \<Rightarrow> string" where
  "url nanosecond airport =
     (let minLat = AirportBoundary.Latitude airport - latRange airport;
          maxLat = AirportBoundary.Latitude airport + latRange airport;
          minLon = AirportBoundary.Longitude airport - lonRange nanosecond airport;
          maxLon = AirportBoundary.Longitude airport + lonRange nanosecond airport
      in ''https://opensky-network.org/api/states/all?lamin='' @ fmt_f minLat @
         ''&lomin='' @ fmt_f minLon @ ''&lamax='' @ fmt_f maxLat @
         ''&lomax='' @ fmt_f maxLon)"

text \<open>
  What the network gives back for one request (no request, no answer, or an answer with
  its status code and a body that decodes or not), and what the rest of the loop body
  does with it. The service keeps nothing between two polls: the parsed states are a
  local variable, and the only effect is the log.
\<close>

datatype payload = Undecodable | Decodable OpenSkyResponse

datatype fetched =
    RequestError
  | FetchError
  | Responded nat payload

datatype logline =
    LogFetching string
  | LogErrorCreatingRequest
  | LogErrorFetching
  | LogNon200 nat
  | LogErrorDecoding
  | LogReceived nat string
  | LogSample string string real real

definition processAirport :: "AirportBoundary \<Rightarrow> fetched \<Rightarrow> logline list" where
  "processAirport airport result =
     LogFetching (ICAO airport) #
     (case result of
        RequestError \<Rightarrow> [LogErrorCreatingRequest]
      | FetchError \<Rightarrow> [LogErrorFetching]
      | Responded code body \<Rightarrow>
          if code \<noteq> 200 then [LogNon200 code]
          else
            (case body of
               Undecodable \<Rightarrow> [LogErrorDecoding]
             | Decodable openSkyResp \<Rightarrow>
                 (let states = parseAircraftStates openSkyResp (ICAO airport)
                  in LogReceived (length states) (ICAO airport) #
                     (case states of
                        [] \<Rightarrow> []
                      | s # _ \<Rightarrow>
                          [LogSample (Icao24 s) (Callsign s) (Altitude s) (Heading s)]))))"

text \<open>
  The parsed states are assigned to a variable local to one pass of the polling loop, so
  after a sequence of polls for one airport that variable holds the states of the last
  response; an earlier value is never read.
\<close>

definition statesAfterPolls :: "string \<Rightarrow> OpenSkyResponse list \<Rightarrow> AircraftState list" where
  "statesAfterPolls airportICAO responses =
     fold (\<lambda>response states. parseAircraftStates response airportICAO) responses []"

section \<open>The dashboard and its API routes (TypeScript)\<close>

text \<open>
  A JavaScript \<open>number\<close> is modelled by \<open>real\<close>, or by \<open>int\<close> where the source
  only ever holds integers (severities, millisecond clock readings). An ISO date string is
  modelled by the millisecond instant it denotes: \<open>toISOString\<close> and \<open>new Date\<close>
  are inverse to each other. A field name that several interfaces share, or that is a
  constant of HOL, carries the name of its interface as a suffix.
\<close>

record Aircraft =
  id_aircraft :: string
  callsign :: string
  position_aircraft :: "real \<times> real"
  altitude :: real
  heading_aircraft :: real
  speed :: real
  verticalRate :: real
  onGround :: bool
  type_aircraft :: string
  alertLevel :: "string option"

record Runway =
  id_runway :: string
  heading_runway :: real
  length_runway :: real
  width :: real
  threshold1 :: "real \<times> real"
  threshold2 :: "real \<times> real"
  active :: bool

record Airport =
  id_airport :: string
  name_airport :: string
  position_airport :: "real \<times> real"
  elevation :: real
  runways :: "Runway list"

record Advisory =
  id_advisory :: string
  timestamp :: int
  message :: string
  severity :: int
  category :: string
  expires :: int

datatype flight_category = VFR | MVFR | IFR | LIFR

record Weather =
  airport_icao :: string
  time_weather :: int
  wind_direction :: real
  wind_speed :: real
  wind_gust :: "real option"
  visibility :: real
  ceiling_weather :: "real option"
  temperature :: real
  dewpoint :: real
  altimeter :: real
  flight_category :: flight_category
  raw_metar :: string

subsection \<open>Property lookup on an object literal\<close>

text \<open>
  The mock tables are object literals indexed with the query parameter. Such a lookup
  finds an own property, or a member inherited from \<open>Object.prototype\<close> (a function or
  the prototype itself, truthy in both cases), or nothing (\<open>undefined\<close>).
  \<open>Object.values\<close> lists the own properties in the order of the literal.
\<close>

datatype 'v property = Own 'v | Inherited | Undefined

definition objectPrototypeKeys :: "string list" where
  "objectPrototypeKeys =
     [''constructor'', ''hasOwnProperty'', ''isPrototypeOf'', ''propertyIsEnumerable'',
      ''toLocaleString'', ''toString'', ''valueOf'', ''__proto__'', ''__defineGetter__'',
      ''__defineSetter__'', ''__lookupGetter__'', ''__lookupSetter__'']"

definition getProperty :: "(string \<times> 'v) list \<Rightarrow> string \<Rightarrow> 'v property" where
  "getProperty table k =
     (case map_of table k of
        Some v \<Rightarrow> Own v
      | None \<Rightarrow> if k \<in> set objectPrototypeKeys then Inherited else Undefined)"

definition objectValues :: "(string \<times> 'v) list \<Rightarrow> 'v list" where
  "objectValues table = map snd table"

text \<open>
  \<open>searchParams.get\<close> gives \<open>null\<close> or a string, modelled by a
  \<open>string option\<close>. The tests \<open>!airportId\<close> and \<open>if (icao)\<close> treat
  \<open>null\<close> and the empty string alike.
\<close>

text \<open>
  \<open>String.prototype.toUpperCase\<close>, on the ASCII letters. The model is the method's
  behaviour on ASCII strings only, which \<open>isAscii\<close> singles out.
\<close>

definition upperChar :: "char \<Rightarrow> char" where
  "upperChar c =
     (case map_of (zip ''abcdefghijklmnopqrstuvwxyz'' ''ABCDEFGHIJKLMNOPQRSTUVWXYZ'') c of
        Some u \<Rightarrow> u
      | None \<Rightarrow> c)"

definition toUpperCase :: "string \<Rightarrow> string" where
  "toUpperCase s = map upperChar s"

definition isAscii :: "string \<Rightarrow> bool" where
  "isAscii s = list_all (\<lambda>c. \<not> digit7 c) s"

text \<open>
  What a route handler does: it throws (the framework answers 500), or it returns
  \<open>NextResponse.json(body, {status})\<close>, the status being 200 when none is given.
\<close>

datatype thrown = TypeError

datatype 'a body =
    Listing "'a list" nat "string option"
  | Single 'a
  | InheritedValue
  | ErrorBody string string

type_synonym 'a response = "thrown + nat \<times> 'a body"

subsection \<open>The aircraft route\<close>

definition MOCK_AIRCRAFT :: "(string \<times> Aircraft list) list" where
  "MOCK_AIRCRAFT =
     [(''KRHV'',
       [\<lparr>id_aircraft = ''a1'', callsign = ''N12345'', position_aircraft = (37.3339, -121.8205),
          altitude = 1500, heading_aircraft = 130, speed = 90, verticalRate = -500,
          onGround = False, type_aircraft = ''C172'', alertLevel = Some ''none''\<rparr>,
        \<lparr>id_aircraft = ''a2'', callsign = ''N54321'', position_aircraft = (37.3318, -121.8175),
          altitude = 1200, heading_aircraft = 310, speed = 70, verticalRate = 0,
          onGround = False, type_aircraft = ''PA28'', alertLevel = Some ''caution''\<rparr>,
        \<lparr>id_aircraft = ''a3'', callsign = ''N98765'', position_aircraft = (37.3305, -121.8155),
          altitude = 800, heading_aircraft = 130, speed = 60, verticalRate = -300,
          onGround = False, type_aircraft = ''C152'', alertLevel = Some ''warning''\<rparr>]),
      (''KPAO'',
       [\<lparr>id_aircraft = ''b1'', callsign = ''N24680'', position_aircraft = (37.4623, -122.1156),
          altitude = 1000, heading_aircraft = 134, speed = 85, verticalRate = -400,
          onGround = False, type_aircraft = ''C172'', alertLevel = Some ''none''\<rparr>,
        \<lparr>id_aircraft = ''b2'', callsign = ''N13579'', position_aircraft = (37.4603, -122.1136),
          altitude = 1300, heading_aircraft = 314, speed = 75, verticalRate = 200,
          onGround = False, type_aircraft = ''SR22'', alertLevel = Some ''none''\<rparr>])]"

text \<open>
  The \<open>map\<close> callback that simulates movement. \<open>Math.random\<close> is the stream
  \<open>random\<close>, read from index \<open>k\<close> on: two draws for the position and, for an
  aircraft that is not on the ground, one for the speed.
\<close>

fun updatedAircraft :: "(nat \<Rightarrow> real) \<Rightarrow> nat \<Rightarrow> Aircraft list \<Rightarrow> Aircraft list" where
  "updatedAircraft random k [] = []"
| "updatedAircraft random k (a # rest) =
     a\<lparr>position_aircraft :=
          (fst (position_aircraft a) + (random k * 0.0002 - 0.0001),
           snd (position_aircraft a) + (random (k + 1) * 0.0002 - 0.0001)),
        altitude := (if onGround a then 0 else altitude a + verticalRate a / 60),
        speed := (if onGround a then 0 else speed a + (random (k + 2) * 2 - 1))\<rparr>
     # updatedAircraft random (if onGround a then k + 2 else k + 3) rest"

definition allAircraft :: "Aircraft response" where
  "allAircraft =
     Inr (200, Listing (concat (objectValues MOCK_AIRCRAFT))
                 (length (concat (objectValues MOCK_AIRCRAFT))) None)"

definition GET_aircraft :: "(nat \<Rightarrow> real) \<Rightarrow> string option \<Rightarrow> Aircraft response" where
  "GET_aircraft random param =
     (case param of
        None \<Rightarrow> allAircraft
      | Some airportId \<Rightarrow>
          if airportId = [] then allAircraft
          else
            (case getProperty MOCK_AIRCRAFT airportId of
               Inherited \<Rightarrow> Inl TypeError
             | Own aircraft \<Rightarrow>
                 Inr (200, Listing (updatedAircraft random 0 aircraft)
                             (length (updatedAircraft random 0 aircraft)) (Some airportId))
             | Undefined \<Rightarrow> Inr (200, Listing [] 0 (Some airportId))))"

subsection \<open>The advisories route\<close>

text \<open>
  The table is built once, when the module is loaded; \<open>loaded\<close> is the reading of
  \<open>Date.now()\<close> then. The degree sign of the two weather messages is left out.
\<close>

definition MOCK_ADVISORIES :: "int \<Rightarrow> (string \<times> Advisory list) list" where
  "MOCK_ADVISORIES loaded =
     [(''KRHV'',
       [\<lparr>id_advisory = ''ADV-KRHV-PATTERN-1'', timestamp = loaded - 5 * 60000,
          message = ''TRAFFIC ALERT: Pattern separation issue between N12345 and N54321.'',
          severity = 3, category = ''PATTERN'', expires = loaded + 10 * 60000\<rparr>,
        \<lparr>id_advisory = ''ADV-KRHV-RUNWAY-1'', timestamp = loaded - 2 * 60000,
          message = ''CAUTION: Multiple aircraft in vicinity of runway 13L.'',
          severity = 2, category = ''RUNWAY'', expires = loaded + 15 * 60000\<rparr>,
        \<lparr>id_advisory = ''ADV-KRHV-WEATHER-1'', timestamp = loaded - 30 * 60000,
          message = ''Weather conditions VFR. Ceiling 5000 feet, visibility 10 miles. Wind 240 at 12 knots, gusting 18 knots.'',
          severity = 1, category = ''WEATHER'', expires = loaded + 60 * 60000\<rparr>]),
      (''KPAO'',
       [\<lparr>id_advisory = ''ADV-KPAO-WEATHER-1'', timestamp = loaded - 45 * 60000,
          message = ''Weather conditions VFR. Ceiling unlimited, visibility 10 miles. Wind 290 at 8 knots.'',
          severity = 1, category = ''WEATHER'', expires = loaded + 60 * 60000\<rparr>])]"

text \<open>
  Everything one request reads from outside: the clock (\<open>new Date()\<close> for the expiry
  filter, then \<open>Date.now()\<close>, \<open>new Date()\<close> and \<open>Date.now()\<close> again inside the
  new advisory) and three draws of \<open>Math.random\<close>.
\<close>

record Reads =
  now :: int
  drawInject :: real
  drawCategory :: real
  drawSeverity :: real
  nowId :: int
  nowTimestamp :: int
  nowExpires :: int

definition showInt :: "int \<Rightarrow> string" where
  "showInt i = (if i < 0 then ''-'' @ digits (nat (- i)) else digits (nat i))"

definition categories :: "string list" where
  "categories = [''TRAFFIC'', ''PATTERN'', ''APPROACH'', ''DEPARTURE'']"

text \<open>An index outside the array reads \<open>undefined\<close>, which a template prints so.\<close>

definition randomCategory :: "real \<Rightarrow> string" where
  "randomCategory draw =
     (let i = \<lfloor>draw * real (length categories)\<rfloor>
      in if 0 \<le> i \<and> i < int (length categories) then categories ! nat i else ''undefined'')"

definition randomSeverity :: "real \<Rightarrow> int" where
  "randomSeverity draw = \<lfloor>draw * 3\<rfloor> + 2"

definition newAdvisory :: "string \<Rightarrow> Reads \<Rightarrow> Advisory" where
  "newAdvisory airportId reads =
     \<lparr>id_advisory = ''ADV-'' @ airportId @ ''-'' @ randomCategory (drawCategory reads) @ ''-'' @
                     showInt (nowId reads),
      timestamp = nowTimestamp reads,
      message = ''NEW '' @ randomCategory (drawCategory reads) @
                '' ADVISORY: Generated for demonstration purposes.'',
      severity = randomSeverity (drawSeverity reads),
      category = randomCategory (drawCategory reads),
      expires = nowExpires reads + 10 * 60000\<rparr>"

definition activeAdvisories :: "Advisory list \<Rightarrow> Reads \<Rightarrow> Advisory list" where
  "activeAdvisories advisories reads = filter (\<lambda>adv. expires adv > now reads) advisories"

definition allAdvisories :: "(string \<times> Advisory list) list \<Rightarrow> Advisory response" where
  "allAdvisories table =
     Inr (200, Listing (concat (objectValues table)) (length (concat (objectValues table))) None)"

definition GET_advisories ::
  "(string \<times> Advisory list) list \<Rightarrow> Reads \<Rightarrow> string option \<Rightarrow> Advisory response" where
  "GET_advisories table reads param =
     (case param of
        None \<Rightarrow> allAdvisories table
      | Some airportId \<Rightarrow>
          if airportId = [] then allAdvisories table
          else
            (case getProperty table airportId of
               Inherited \<Rightarrow> Inl TypeError
             | found \<Rightarrow>
                 (let advisories = (case found of Own v \<Rightarrow> v | _ \<Rightarrow> []);
                      active = activeAdvisories advisories reads;
                      pushed = (if drawInject reads < 0.1
                                then active @ [newAdvisory airportId reads] else active)
                  in Inr (200, Listing pushed (length pushed) (Some airportId)))))"

subsection \<open>The weather and airports routes\<close>

definition MOCK_WEATHER :: "int \<Rightarrow> (string \<times> Weather) list" where
  "MOCK_WEATHER t =
     [(''KRHV'',
       \<lparr>airport_icao = ''KRHV'', time_weather = t, wind_direction = 240, wind_speed = 12,
         wind_gust = Some 18, visibility = 10, ceiling_weather = Some 5000, temperature = 25,
         dewpoint = 15, altimeter = 29.92, flight_category = VFR,
         raw_metar = ''KRHV 121853Z 24012G18KT 10SM FEW050 25/15 A2992''\<rparr>),
      (''KPAO'',
       \<lparr>airport_icao = ''KPAO'', time_weather = t, wind_direction = 290, wind_speed = 8,
         wind_gust = None, visibility = 10, ceiling_weather = None, temperature = 23,
         dewpoint = 14, altimeter = 29.93, flight_category = VFR,
         raw_metar = ''KPAO 121853Z 29008KT 10SM CLR 23/14 A2993''\<rparr>),
      (''KSJC'',
       \<lparr>airport_icao = ''KSJC'', time_weather = t, wind_direction = 310, wind_speed = 15,
         wind_gust = Some 22, visibility = 10, ceiling_weather = Some 12000, temperature = 24,
         dewpoint = 13, altimeter = 29.92, flight_category = VFR,
         raw_metar = ''KSJC 121853Z 31015G22KT 10SM FEW120 24/13 A2992''\<rparr>)]"

text \<open>
  The handler first stamps every entry with the current time (\<open>t\<close> below), then looks
  the upper-cased parameter up.
\<close>

definition GET_weather :: "int \<Rightarrow> string option \<Rightarrow> Weather response" where
  "GET_weather t param =
     (let table = map (\<lambda>(k, weather). (k, weather\<lparr>time_weather := t\<rparr>)) (MOCK_WEATHER t);
          everything = Inr (200, Listing (objectValues table) (length (objectValues table)) None)
      in case param of
           None \<Rightarrow> everything
         | Some airport \<Rightarrow>
             if airport = [] then everything
             else
               (case getProperty table (toUpperCase airport) of
                  Undefined \<Rightarrow>
                    Inr (404, ErrorBody ''Weather for specified airport not found''
                                ''WEATHER_NOT_FOUND'')
                | Own weather \<Rightarrow> Inr (200, Single weather)
                | Inherited \<Rightarrow> Inr (200, InheritedValue)))"

definition MOCK_AIRPORTS :: "(string \<times> Airport) list" where
  "MOCK_AIRPORTS =
     [(''KRHV'',
       \<lparr>id_airport = ''KRHV'', name_airport = ''Reid-Hillview Airport'',
         position_airport = (37.3329, -121.8989), elevation = 133,
         runways =
           [\<lparr>id_runway = ''13L/31R'', heading_runway = 130, length_runway = 3100, width = 75,
              threshold1 = (37.3376, -121.9034), threshold2 = (37.3281, -121.8944),
              active = True\<rparr>,
            \<lparr>id_runway = ''13R/31L'', heading_runway = 130, length_runway = 3100, width = 75,
              threshold1 = (37.3373, -121.9037), threshold2 = (37.3278, -121.8947),
              active = False\<rparr>]\<rparr>),
      (''KPAO'',
       \<lparr>id_airport = ''KPAO'', name_airport = ''Palo Alto Airport'',
         position_airport = (37.4580, -122.1150), elevation = 4,
         runways =
           [\<lparr>id_runway = ''13/31'', heading_runway = 130, length_runway = 2443, width = 60,
              threshold1 = (37.4617, -122.1184), threshold2 = (37.4543, -122.1116),
              active = True\<rparr>]\<rparr>),
      (''KSJC'',
       \<lparr>id_airport = ''KSJC'', name_airport = ''San Jose International Airport'',
         position_airport = (37.3639, -121.9289), elevation = 62,
         runways =
           [\<lparr>id_runway = ''12L/30R'', heading_runway = 120, length_runway = 11000, width = 150,
              threshold1 = (37.3689, -121.9386), threshold2 = (37.3590, -121.9192),
              active = True\<rparr>,
            \<lparr>id_runway = ''12R/30L'', heading_runway = 120, length_runway = 10200, width = 150,
              threshold1 = (37.3669, -121.9408), threshold2 = (37.3570, -121.9214),
              active = False\<rparr>]\<rparr>)]"

definition GET_airports :: "string option \<Rightarrow> Airport response" where
  "GET_airports param =
     (let everything =
            Inr (200, Listing (objectValues MOCK_AIRPORTS) (length (objectValues MOCK_AIRPORTS))
                        None)
      in case param of
           None \<Rightarrow> everything
         | Some icao \<Rightarrow>
             if icao = [] then everything
             else
               (case getProperty MOCK_AIRPORTS (toUpperCase icao) of
                  Undefined \<Rightarrow> Inr (404, ErrorBody ''Airport not found'' ''AIRPORT_NOT_FOUND'')
                | Own airport \<Rightarrow> Inr (200, Single airport)
                | Inherited \<Rightarrow> Inr (200, InheritedValue)))"

subsection \<open>The advisory panel and the advisories page\<close>

text \<open>
  \<open>Array.prototype.sort\<close> with a comparator is stable: of two elements that compare
  equal, the one earlier in the input stays first. Insertion from the right gives that
  order. The comparator's result is a number; only its sign is used.
\<close>

fun insertSorted :: "('a \<Rightarrow> 'a \<Rightarrow> int) \<Rightarrow> 'a \<Rightarrow> 'a list \<Rightarrow> 'a list" where
  "insertSorted compare x [] = [x]"
| "insertSorted compare x (y # ys) =
     (if compare x y \<le> 0 then x # y # ys else y # insertSorted compare x ys)"

definition sort_js :: "('a \<Rightarrow> 'a \<Rightarrow> int) \<Rightarrow> 'a list \<Rightarrow> 'a list" where
  "sort_js compare xs = foldr (insertSorted compare) xs []"

definition compareAdvisories :: "Advisory \<Rightarrow> Advisory \<Rightarrow> int" where
  "compareAdvisories a b =
     (if severity a \<noteq> severity b then severity b - severity a
      else timestamp b - timestamp a)"

definition sortedAdvisories :: "Advisory list \<Rightarrow> Advisory list" where
  "sortedAdvisories advisories = sort_js compareAdvisories advisories"

text \<open>The page filters by category first, unless the filter is the empty string.\<close>

definition filteredAdvisories :: "string \<Rightarrow> Advisory list \<Rightarrow> Advisory list" where
  "filteredAdvisories filterCategory advisories =
     (if filterCategory \<noteq> [] then filter (\<lambda>adv. category adv = filterCategory) advisories
      else advisories)"

definition sortedAdvisories_page :: "string \<Rightarrow> Advisory list \<Rightarrow> Advisory list" where
  "sortedAdvisories_page filterCategory advisories =
     sort_js compareAdvisories (filteredAdvisories filterCategory advisories)"

text \<open>
  The panel's timer callback, run every 30 seconds: the clock readings and the four draws
  of \<open>Math.random\<close> it makes, in the order of the source, and the new panel state.
\<close>

record PanelReads =
  drawAdd :: real
  panelNowId :: int
  panelNowTimestamp :: int
  drawMiles :: real
  drawDirection :: real
  drawPanelSeverity :: real
  panelNowExpires :: int

definition directions :: "string list" where
  "directions = [''north'', ''south'', ''east'', ''west'']"

definition randomDirection :: "real \<Rightarrow> string" where
  "randomDirection draw =
     (let i = \<lfloor>draw * 4\<rfloor>
      in if 0 \<le> i \<and> i < int (length directions) then directions ! nat i else ''undefined'')"

definition panelAdvisory :: "string \<Rightarrow> PanelReads \<Rightarrow> Advisory" where
  "panelAdvisory airportId reads =
     \<lparr>id_advisory = ''ADV-'' @ airportId @ ''-TRAFFIC-'' @ showInt (panelNowId reads),
      timestamp = panelNowTimestamp reads,
      message = ''NEW TRAFFIC ADVISORY: Aircraft reported '' @
                showInt (\<lfloor>drawMiles reads * 5\<rfloor> + 1) @ '' miles '' @
                randomDirection (drawDirection reads) @ '' of the field.'',
      severity = \<lfloor>drawPanelSeverity reads * 3\<rfloor> + 2,
      category = ''TRAFFIC'',
      expires = panelNowExpires reads + 10 * 60000\<rparr>"

definition panelTick :: "string \<Rightarrow> PanelReads \<Rightarrow> Advisory list \<Rightarrow> Advisory list" where
  "panelTick airportId reads prev =
     (if drawAdd reads < 0.2 then panelAdvisory airportId reads # prev else prev)"

subsection \<open>The approach paths of the traffic map\<close>

text \<open>
  \<open>Math.cos\<close>, \<open>Math.sin\<close>, \<open>Math.sqrt\<close> and \<open>Math.PI\<close> are the real
  functions and the real number. The corridor runs from \<open>approachStart\<close>, five
  nautical miles from the threshold against the runway heading, to \<open>threshold1\<close>.
  The quotient by the cosine of the latitude is the real one; the cosine is 0 only for a
  threshold at a pole, where the floating-point cosine of the source is tiny and not 0.
\<close>

definition approachStart :: "Runway \<Rightarrow> real \<times> real" where
  "approachStart runway =
     (let heading = heading_runway runway;
          headingRad = (heading - 180) * pi / 180;
          lat1 = fst (threshold1 runway);
          lon1 = snd (threshold1 runway);
          latDiff = cos headingRad * (5 / 60);
          lonDiff = sin headingRad * (5 / 60) / cos (lat1 * pi / 180)
      in (lat1 + latDiff, lon1 + lonDiff))"

text \<open>The distance the loop body computes for one pair of consecutive positions.\<close>

definition dist_js :: "real \<times> real \<Rightarrow> real \<times> real \<Rightarrow> real \<times> real \<Rightarrow> real" where
  "dist_js p start end_pos =
     sqrt ((fst p - (fst start + fst end_pos) / 2) ^ 2 +
           (snd p - (snd start + snd end_pos) / 2) ^ 2)"

text \<open>
  The loop \<open>for (i = 0; i < positions.length - 1; i++)\<close> over consecutive positions;
  \<open>minDist\<close> starts at \<open>Number.POSITIVE_INFINITY\<close>, which is \<open>None\<close> here.
\<close>

fun minDistLoop :: "real \<times> real \<Rightarrow> (real \<times> real) list \<Rightarrow> real option \<Rightarrow> real option" where
  "minDistLoop p (start # end_pos # rest) minDist =
     minDistLoop p (end_pos # rest)
       (Some (case minDist of None \<Rightarrow> dist_js p start end_pos
                            | Some m \<Rightarrow> min m (dist_js p start end_pos)))"
| "minDistLoop p positions minDist = minDist"

definition onApproach :: "Runway \<Rightarrow> Aircraft \<Rightarrow> bool" where
  "onApproach runway a =
     (if onGround a then False
      else
        (let positions = [approachStart runway, threshold1 runway];
             minDist = minDistLoop (position_aircraft a) positions None
         in (case minDist of None \<Rightarrow> False | Some m \<Rightarrow> m < 0.01) \<and> verticalRate a < 0))"

definition aircraftOnApproach :: "Runway \<Rightarrow> Aircraft list \<Rightarrow> Aircraft list" where
  "aircraftOnApproach runway aircraft = filter (onApproach runway) aircraft"

definition pathColor :: "nat \<Rightarrow> string" where
  "pathColor n =
     (if n = 1 then ''green''
      else if n = 2 then ''orange''
      else if n > 2 then ''red''
      else ''green'')"

record Polyline =
  key :: string
  positions :: "(real \<times> real) list"
  color :: string
  weight :: nat
  dashArray :: string

definition renderApproachPaths :: "Airport option \<Rightarrow> Aircraft list \<Rightarrow> Polyline option list option" where
  "renderApproachPaths airport aircraft =
     (case airport of
        None \<Rightarrow> None
      | Some ap \<Rightarrow>
          Some (map (\<lambda>runway.
                  if \<not> active runway then None
                  else Some \<lparr>key = ''approach-'' @ id_runway runway,
                             positions = [approachStart runway, threshold1 runway],
                             color = pathColor (length (aircraftOnApproach runway aircraft)),
                             weight = 2, dashArray = ''10, 5''\<rparr>)
                (runways ap)))"

section \<open>The specification's wording, for comparison\<close>

text \<open>
  The distance of the specification: from a point to the nearest point of the segment
  between \<open>s\<close> and \<open>e\<close>, which is the foot of the perpendicular when that lies on
  the segment and the nearer end otherwise.
\<close>

definition spec_pointToSegment :: "real \<times> real \<Rightarrow> real \<times> real \<Rightarrow> real \<times> real \<Rightarrow> real" where
  "spec_pointToSegment p s e =
     (let vx = fst e - fst s; vy = snd e - snd s;
          wx = fst p - fst s; wy = snd p - snd s;
          d2 = vx ^ 2 + vy ^ 2;
          u = (if d2 = 0 then 0 else max 0 (min 1 ((wx * vx + wy * vy) / d2)))
      in sqrt ((wx - u * vx) ^ 2 + (wy - u * vy) ^ 2))"

text \<open>
  On-corridor as the specification words it: airborne, descending, and at most the
  lateral tolerance away from the corridor segment.
\<close>

definition spec_onCorridor :: "real \<Rightarrow> Runway \<Rightarrow> Aircraft \<Rightarrow> bool" where
  "spec_onCorridor tolerance runway a =
     (\<not> onGround a \<and> verticalRate a < 0 \<and>
      spec_pointToSegment (position_aircraft a) (threshold1 runway) (approachStart runway)
        \<le> tolerance)"

text \<open>
  The severity step function of the specification; \<open>None\<close> is "no finding".
\<close>

definition spec_corridorSeverity :: "nat \<Rightarrow> nat option" where
  "spec_corridorSeverity n =
     (if n = 0 then None else if n = 1 then Some 2 else if n = 2 then Some 3 else Some 5)"

text \<open>
  The order of the specification on advisories: severity descending, then creation time
  descending, then advisory id ascending (strings in lexicographic order).
\<close>

definition spec_before :: "Advisory \<Rightarrow> Advisory \<Rightarrow> bool" where
  "spec_before a b =
     (severity a > severity b \<or>
      (severity a = severity b \<and>
       (timestamp a > timestamp b \<or>
        (timestamp a = timestamp b \<and> id_advisory a < id_advisory b))))"

text \<open>
  The key by which the comparator of the two sorts orders advisories: it compares two
  advisories as their keys compare, pairs being ordered lexicographically.
\<close>

definition orderKey :: "Advisory \<Rightarrow> int \<times> int" where
  "orderKey a = (- severity a, - timestamp a)"

text \<open>
  The order in which the three path colours escalate.
\<close>

definition colorRank :: "string \<Rightarrow> nat" where
  "colorRank c = (if c = ''green'' then 0 else if c = ''orange'' then 1 else 2)"

text \<open>The list a response carries, empty when it carries none.\<close>

definition listed :: "'a response \<Rightarrow> 'a list" where
  "listed r = (case r of Inr (_, Listing xs _ _) \<Rightarrow> xs | _ \<Rightarrow> [])"

section \<open>Sample inputs\<close>

text \<open>
  A state array of 17 fields whose id, altitude and several other fields are \<open>null\<close>,
  and two responses for one aircraft, the second taken before the first.
\<close>

definition record17 :: "json list" where
  "record17 = [JNull, JStr ''N12345'', JStr ''United States'', JNull, JNum 1700000000, JNum 1700000000,
     JNum 37.33, JNum (-121.82), JNull, JBool False, JNum 45, JNum 130, JNull, JNull, JNull, JNull, JNum (-2.5)]"

text \<open>
  The reads of a request at time \<open>t\<close> whose first draw is \<open>d\<close>, and those of a
  run of the panel's timer.
\<close>

definition readsAt :: "int \<Rightarrow> real \<Rightarrow> Reads" where
  "readsAt t d =
     \<lparr>now = t, drawInject = d, drawCategory = 0.3, drawSeverity = 0.5, nowId = t,
      nowTimestamp = t, nowExpires = t\<rparr>"

definition panelReadsAt :: "int \<Rightarrow> real \<Rightarrow> PanelReads" where
  "panelReadsAt t d =
     \<lparr>drawAdd = d, panelNowId = t, panelNowTimestamp = t, drawMiles = 0.5,
      drawDirection = 0.6, drawPanelSeverity = 0.9, panelNowExpires = t\<rparr>"

text \<open>
  A runway of heading 180, an aircraft half a nautical mile from its threshold on the
  corridor, and the same aircraft at the middle of the corridor.
\<close>

definition runway18 :: Runway where
  "runway18 = \<lparr>id_runway = ''18/36'', heading_runway = 180, length_runway = 3100, width = 75,
     threshold1 = (37.3376, -121.9034), threshold2 = (37.3291, -121.9034), active = True\<rparr>"

definition shortFinal :: Aircraft where
  "shortFinal = \<lparr>id_aircraft = ''a1'', callsign = ''N12345'',
     position_aircraft = (37.3376 + 1 / 120, -121.9034), altitude = 300,
     heading_aircraft = 180, speed = 70, verticalRate = -500, onGround = False,
     type_aircraft = ''C172'', alertLevel = Some ''none''\<rparr>"

definition midFinal :: Aircraft where
  "midFinal = shortFinal\<lparr>position_aircraft := (37.3376 + 1 / 24, -121.9034)\<rparr>"

text \<open>Two advisories that differ in their id only.\<close>

definition advisoryA :: Advisory where
  "advisoryA = \<lparr>id_advisory = ''ADV-KRHV-TRAFFIC-1'', timestamp = 1700000000000,
     message = ''Traffic'', severity = 3, category = ''TRAFFIC'',
     expires = 1700000600000\<rparr>"

definition advisoryB :: Advisory where
  "advisoryB = advisoryA\<lparr>id_advisory := ''ADV-KRHV-TRAFFIC-2''\<rparr>"

definition freshResponse :: OpenSkyResponse where
  "freshResponse = \<lparr>Time = 1700000100, States = [JStr ''abc123'' # JStr ''N12345'' # JStr ''United States'' # JNull # JNum 1700000100 # JNum 1700000100 # JNum 37.34 # JNum (-121.83) # replicate 9 JNull]\<rparr>"

definition staleResponse :: OpenSkyResponse where
  "staleResponse = \<lparr>Time = 1700000050, States = [JStr ''abc123'' # JStr ''N12345'' # JStr ''United States'' # JNull # JNum 1700000050 # JNum 1700000050 # JNum 37.33 # JNum (-121.82) # replicate 9 JNull]\<rparr>"

section \<open>Properties of the ingestion service\<close>

lemma parseLoop_append:
  "parseLoop t icao xs acc = acc @ parseLoop t icao xs []"
proof (induction xs arbitrary: acc)
  case Nil
  show ?case by simp
next
  case (Cons x xs)
  show ?case
    using Cons.IH [of "acc @ [stateOf t icao x]"] Cons.IH [of "[stateOf t icao x]"]
    by (simp add: Cons.IH [of acc])
qed

lemma parseLoop_map_filter:
  "parseLoop t icao xs [] = map (stateOf t icao) (filter (\<lambda>a. \<not> length a < 17) xs)"
proof (induction xs)
  case Nil
  show ?case by simp
next
  case (Cons x xs)
  show ?case
    using parseLoop_append [of t icao xs "[stateOf t icao x]"] Cons.IH
    by simp
qed

subsection \<open>The bounding box\<close>

lemma fmt_f_eval:
  "nat (round (\<bar>x\<bar> * 1000000)) = n \<Longrightarrow>
   fmt_f x = (if x < 0 then ''-'' else []) @ digits (n div 1000000) @ ''.'' @
             drop (length (digits (n mod 1000000))) ''000000'' @
             digits (n mod 1000000)"
  by (simp add: fmt_f_def Let_def del: digits.simps)

lemma hd_airports:
  "hd airports = \<lparr>ICAO = ''KRHV'', Name = ''Reid-Hillview'', Latitude = 37.3329,
     Longitude = -121.8195, Radius = 10\<rparr>"
  by (simp add: airports_def)

lemma lonRange_0: "lonRange 0 (hd airports) = 5 / 27"
  by (simp add: hd_airports lonRange_def latRange_def cos_go_def)

lemma lonRange_5000: "lonRange 5000 (hd airports) = 10 / 57"
  by (simp add: hd_airports lonRange_def latRange_def cos_go_def)

lemma fmt_minLat:
  "fmt_f (AirportBoundary.Latitude (hd airports) - latRange (hd airports)) = ''37.166233''"
  by (rule trans [OF fmt_f_eval [where n = 37166233]])
     (simp_all add: hd_airports latRange_def round_def)

lemma fmt_maxLat:
  "fmt_f (AirportBoundary.Latitude (hd airports) + latRange (hd airports)) = ''37.499567''"
  by (rule trans [OF fmt_f_eval [where n = 37499567]])
     (simp_all add: hd_airports latRange_def round_def)

lemma fmt_minLon_0:
  "fmt_f (AirportBoundary.Longitude (hd airports) - lonRange 0 (hd airports)) = ''-122.004685''"
  unfolding lonRange_0
  by (rule trans [OF fmt_f_eval [where n = 122004685]])
     (simp_all add: hd_airports round_def)

lemma fmt_maxLon_0:
  "fmt_f (AirportBoundary.Longitude (hd airports) + lonRange 0 (hd airports)) = ''-121.634315''"
  unfolding lonRange_0
  by (rule trans [OF fmt_f_eval [where n = 121634315]])
     (simp_all add: hd_airports round_def)

lemma fmt_minLon_5000:
  "fmt_f (AirportBoundary.Longitude (hd airports) - lonRange 5000 (hd airports)) = ''-121.994939''"
  unfolding lonRange_5000
  by (rule trans [OF fmt_f_eval [where n = 121994939]])
     (simp_all add: hd_airports round_def)

lemma fmt_maxLon_5000:
  "fmt_f (AirportBoundary.Longitude (hd airports) + lonRange 5000 (hd airports)) = ''-121.644061''"
  unfolding lonRange_5000
  by (rule trans [OF fmt_f_eval [where n = 121644061]])
     (simp_all add: hd_airports round_def)

lemma url_0:
  "url 0 (hd airports) =
     ''https://opensky-network.org/api/states/all?lamin=37.166233&lomin=-122.004685&lamax=37.499567&lomax=-121.634315''"
  unfolding url_def Let_def fmt_minLat fmt_maxLat fmt_minLon_0 fmt_maxLon_0 by simp

lemma url_5000:
  "url 5000 (hd airports) =
     ''https://opensky-network.org/api/states/all?lamin=37.166233&lomin=-121.994939&lamax=37.499567&lomax=-121.644061''"
  unfolding url_def Let_def fmt_minLat fmt_maxLat fmt_minLon_5000 fmt_maxLon_5000 by simp

lemma cos_go_range: "0.9 \<le> cos_go ns r \<and> cos_go ns r < 1"
proof -
  have "ns mod 10000 < 10000" by simp
  then have "real (ns mod 10000) < 10000" by linarith
  then show ?thesis unfolding cos_go_def by simp
qed

text \<open>
  Claim C9. The helper \<open>cos\<close> of the ingestion service is not the cosine and not a
  function of its argument: whatever the argument, its value lies in the half-open
  interval from 0.9 to 1.0 and is fixed by the nanosecond reading of the clock alone (it
  differs from the cosine at 0, and two readings give two values for one argument). So two
  runs over the same airport data can compute different longitude ranges and different
  query URLs: for the first airport of the table, the readings 0 and 5000 do.
\<close>

theorem cos_go_is_clock_noise:
  "(0.9 \<le> cos_go ns r \<and> cos_go ns r < 1) \<and>
   cos_go ns r = cos_go ns r' \<and>
   cos_go ns 0 \<noteq> cos 0 \<and>
   cos_go 0 r \<noteq> cos_go 5000 r \<and>
   lonRange 0 (hd airports) \<noteq> lonRange 5000 (hd airports) \<and>
   url 0 (hd airports) \<noteq> url 5000 (hd airports)"
proof -
  have "cos_go ns 0 \<noteq> cos 0" using cos_go_range [of ns 0] by simp
  moreover have "cos_go ns r = cos_go ns r'" by (simp add: cos_go_def)
  moreover have "cos_go 0 r \<noteq> cos_go 5000 r" by (simp add: cos_go_def)
  moreover have "lonRange 0 (hd airports) \<noteq> lonRange 5000 (hd airports)"
    by (simp add: lonRange_0 lonRange_5000)
  moreover have "url 0 (hd airports) \<noteq> url 5000 (hd airports)"
    by (simp add: url_0 url_5000)
  ultimately show ?thesis using cos_go_range [of ns r] by blast
qed

subsection \<open>Parsing a batch\<close>

lemma parseAircraftStates_map_filter:
  "parseAircraftStates response icao =
     map (stateOf (Time response) icao) (filter (\<lambda>a. 17 \<le> length a) (States response))"
  by (simp add: parseAircraftStates_def parseLoop_map_filter not_less)

lemma stateOf_null_as_zero:
  assumes "17 \<le> length r"
  shows "stateOf t icao (r[6 := JNull]) = stateOf t icao (r[6 := JNum 0])"
    and "stateOf t icao (r[7 := JNull]) = stateOf t icao (r[7 := JNum 0])"
    and "stateOf t icao (r[8 := JNull]) = stateOf t icao (r[8 := JNum 0])"
    and "stateOf t icao (r[10 := JNull]) = stateOf t icao (r[10 := JNum 0])"
    and "stateOf t icao (r[11 := JNull]) = stateOf t icao (r[11 := JNum 0])"
    and "stateOf t icao (r[16 := JNull]) = stateOf t icao (r[16 := JNum 0])"
  using assms by (simp_all add: stateOf_def Let_def assertFloat64_def)

lemma stateOf_Time:
  "(stateOf t icao r)\<lparr>Timestamp := 0\<rparr> = (stateOf t' icao r)\<lparr>Timestamp := 0\<rparr>"
  by (simp add: stateOf_def Let_def)

lemma stateOf_record17:
  "stateOf 1700000005 ''KRHV'' record17 =
     \<lparr>Icao24 = [], Callsign = ''N12345'', OriginCountry = ''United States'',
      Latitude = 37.33, Longitude = -121.82, Altitude = 0, Velocity = 45, Heading = 130,
      VerticalRate = -2.5, OnGround = False, LastContact = 1700000000,
      TimePosition = 1700000000, Timestamp = 1700000005, AirportVicinity = ''KRHV''\<rparr>"
  by (simp add: stateOf_def record17_def assertString_def assertFloat64_def assertBool_def int64_def Let_def)

text \<open>
  Claim C7, as stated, fails: a record whose id is \<open>null\<close> is not skipped. A batch of
  one such record of 17 fields yields one state, with the empty string as its id.
\<close>

theorem record_without_id_is_kept:
  "parseAircraftStates \<lparr>Time = 1700000005, States = [record17]\<rparr> ''KRHV'' =
     [\<lparr>Icao24 = [], Callsign = ''N12345'', OriginCountry = ''United States'',
       Latitude = 37.33, Longitude = -121.82, Altitude = 0, Velocity = 45, Heading = 130,
       VerticalRate = -2.5, OnGround = False, LastContact = 1700000000,
       TimePosition = 1700000000, Timestamp = 1700000005, AirportVicinity = ''KRHV''\<rparr>]"
  by (simp add: parseAircraftStates_map_filter stateOf_record17) (simp add: record17_def)

text \<open>
  Claim C7, amended. The parser skips exactly the state arrays of fewer than 17 fields and
  returns one state for every other array, in order, whether or not its id is present (a
  \<open>null\<close> id becomes the empty string); nothing is counted. A skipped array changes
  nothing about the other records, each record is handled on its own, and the parser has
  no failing branch.
\<close>

theorem parse_skips_short_arrays_only:
  "parseAircraftStates response icao =
     map (stateOf (Time response) icao) (filter (\<lambda>a. 17 \<le> length a) (States response)) \<and>
   (length bad < 17 \<longrightarrow>
      parseAircraftStates (response\<lparr>States := before @ bad # after\<rparr>) icao =
      parseAircraftStates (response\<lparr>States := before @ after\<rparr>) icao) \<and>
   (17 \<le> length r \<longrightarrow>
      parseAircraftStates (response\<lparr>States := before @ r # after\<rparr>) icao =
      parseAircraftStates (response\<lparr>States := before\<rparr>) icao @
      stateOf (Time response) icao r #
      parseAircraftStates (response\<lparr>States := after\<rparr>) icao \<and>
      (r ! 0 = JNull \<longrightarrow> Icao24 (stateOf (Time response) icao r) = []))"
proof (intro conjI impI)
  show "parseAircraftStates response icao =
     map (stateOf (Time response) icao) (filter (\<lambda>a. 17 \<le> length a) (States response))"
    by (rule parseAircraftStates_map_filter)
next
  assume "length bad < 17"
  then show "parseAircraftStates (response\<lparr>States := before @ bad # after\<rparr>) icao =
      parseAircraftStates (response\<lparr>States := before @ after\<rparr>) icao"
    by (simp add: parseAircraftStates_map_filter)
next
  assume "17 \<le> length r"
  then show "parseAircraftStates (response\<lparr>States := before @ r # after\<rparr>) icao =
      parseAircraftStates (response\<lparr>States := before\<rparr>) icao @
      stateOf (Time response) icao r #
      parseAircraftStates (response\<lparr>States := after\<rparr>) icao"
    by (simp add: parseAircraftStates_map_filter)
next
  assume "r ! 0 = JNull"
  then show "Icao24 (stateOf (Time response) icao r) = []"
    by (simp add: stateOf_def assertString_def Let_def)
qed

theorem parse_skips_short_arrays_only_witness:
  "parseAircraftStates \<lparr>Time = 1700000005, States = [[JStr ''abc123''], record17]\<rparr> ''KRHV'' =
     parseAircraftStates \<lparr>Time = 1700000005, States = [record17]\<rparr> ''KRHV'' \<and>
   parseAircraftStates \<lparr>Time = 1700000005, States = [record17, []]\<rparr> ''KRHV'' =
     [stateOf 1700000005 ''KRHV'' record17] \<and>
   Icao24 (stateOf 1700000005 ''KRHV'' record17) = []"
proof -
  have short: "length [JStr ''abc123''] < 17" by simp
  have long: "17 \<le> length record17" by (simp add: record17_def)
  have null: "record17 ! 0 = JNull" by (simp add: record17_def)
  note t1 = parse_skips_short_arrays_only
    [where response = "\<lparr>Time = 1700000005, States = []\<rparr>" and icao = "''KRHV''"
       and bad = "[JStr ''abc123'']" and before = "[]" and after = "[record17]"
       and r = record17]
  note t2 = parse_skips_short_arrays_only
    [where response = "\<lparr>Time = 1700000005, States = []\<rparr>" and icao = "''KRHV''"
       and bad = "[]" and before = "[]" and after = "[[]]" and r = record17]
  from t1 short long null t2 show ?thesis
    by (simp add: parseAircraftStates_def)
qed

text \<open>
  Claim C8. Every record of at least 17 fields yields its state, and in that state each
  of latitude, longitude, altitude, velocity, heading and vertical rate is 0 when the
  field is \<open>null\<close>; the state is the same as the one of the record with a reading of
  0 in that field, so the two cannot be told apart.
\<close>

theorem absent_fields_stored_as_zero:
  assumes "r \<in> set (States response)" and "17 \<le> length r"
  shows "stateOf (Time response) icao r \<in> set (parseAircraftStates response icao) \<and>
    (r ! 6 = JNull \<longrightarrow> Latitude (stateOf (Time response) icao r) = 0) \<and>
    (r ! 7 = JNull \<longrightarrow> Longitude (stateOf (Time response) icao r) = 0) \<and>
    (r ! 8 = JNull \<longrightarrow> Altitude (stateOf (Time response) icao r) = 0) \<and>
    (r ! 10 = JNull \<longrightarrow> Velocity (stateOf (Time response) icao r) = 0) \<and>
    (r ! 11 = JNull \<longrightarrow> Heading (stateOf (Time response) icao r) = 0) \<and>
    (r ! 16 = JNull \<longrightarrow> VerticalRate (stateOf (Time response) icao r) = 0) \<and>
    (\<forall>i \<in> {6, 7, 8, 10, 11, 16}.
       stateOf (Time response) icao (r[i := JNull]) =
       stateOf (Time response) icao (r[i := JNum 0]))"
proof -
  have "stateOf (Time response) icao r \<in> set (parseAircraftStates response icao)"
    using assms by (simp add: parseAircraftStates_map_filter)
  moreover have "\<forall>i \<in> {6, 7, 8, 10, 11, 16}.
       stateOf (Time response) icao (r[i := JNull]) =
       stateOf (Time response) icao (r[i := JNum 0])"
    using assms(2) by (simp add: stateOf_null_as_zero)
  ultimately show ?thesis
    by (simp add: stateOf_def Let_def)
qed

theorem absent_fields_stored_as_zero_witness:
  "record17 \<in> set (States \<lparr>Time = 1700000005, States = [record17]\<rparr>) \<and>
   17 \<le> length record17 \<and> record17 ! 8 = JNull \<and>
   stateOf 1700000005 ''KRHV'' record17
     \<in> set (parseAircraftStates \<lparr>Time = 1700000005, States = [record17]\<rparr> ''KRHV'') \<and>
   Altitude (stateOf 1700000005 ''KRHV'' record17) = 0 \<and>
   stateOf 1700000005 ''KRHV'' (record17[8 := JNull]) =
   stateOf 1700000005 ''KRHV'' (record17[8 := JNum 0])"
proof -
  have a: "record17 \<in> set (States \<lparr>Time = 1700000005, States = [record17]\<rparr>)" by simp
  have b: "17 \<le> length record17" by (simp add: record17_def)
  have c: "record17 ! 8 = JNull" by (simp add: record17_def)
  from absent_fields_stored_as_zero [OF a b, of "''KRHV''"] a b c show ?thesis by simp
qed

subsection \<open>No track table\<close>

text \<open>
  Claim C6, as stated, fails: the service has no track table and never compares
  timestamps. After a response and then an older one for the same aircraft, the states it
  holds are those of the older response: the stale sample is not discarded.
\<close>

theorem stale_sample_replaces_fresh_one:
  "Time staleResponse < Time freshResponse \<and>
   statesAfterPolls ''KRHV'' [freshResponse] =
     [\<lparr>Icao24 = ''abc123'', Callsign = ''N12345'', OriginCountry = ''United States'',
       Latitude = 37.34, Longitude = -121.83, Altitude = 0, Velocity = 0, Heading = 0,
       VerticalRate = 0, OnGround = False, LastContact = 1700000100,
       TimePosition = 1700000100, Timestamp = 1700000100, AirportVicinity = ''KRHV''\<rparr>] \<and>
   statesAfterPolls ''KRHV'' [freshResponse, staleResponse] =
     [\<lparr>Icao24 = ''abc123'', Callsign = ''N12345'', OriginCountry = ''United States'',
       Latitude = 37.33, Longitude = -121.82, Altitude = 0, Velocity = 0, Heading = 0,
       VerticalRate = 0, OnGround = False, LastContact = 1700000050,
       TimePosition = 1700000050, Timestamp = 1700000050, AirportVicinity = ''KRHV''\<rparr>] \<and>
   statesAfterPolls ''KRHV'' [freshResponse, staleResponse] \<noteq>
   statesAfterPolls ''KRHV'' [freshResponse]"
  by (simp add: statesAfterPolls_def parseAircraftStates_def freshResponse_def staleResponse_def
      stateOf_def Let_def assertString_def assertFloat64_def assertBool_def int64_def
      nth_Cons' nth_replicate)

text \<open>
  Claim C6, amended. What a poll yields depends on that poll's response alone and, but for
  the stamp put on each state, not on the response's time: the log written is the same
  for any batch time, the states differ in their \<open>Timestamp\<close> only, every array of
  at least 17 fields gives a state, and the states held after a sequence of polls are
  those of the last response. No sample is discarded for being older than another.
\<close>

theorem no_track_table_no_staleness_check:
  "processAirport airport (Responded code (Decodable (response\<lparr>Time := t\<rparr>))) =
     processAirport airport (Responded code (Decodable (response\<lparr>Time := t'\<rparr>))) \<and>
   map (\<lambda>s. s\<lparr>Timestamp := 0\<rparr>) (parseAircraftStates (response\<lparr>Time := t\<rparr>) icao) =
     map (\<lambda>s. s\<lparr>Timestamp := 0\<rparr>) (parseAircraftStates (response\<lparr>Time := t'\<rparr>) icao) \<and>
   length (parseAircraftStates response icao) =
     length (filter (\<lambda>a. 17 \<le> length a) (States response)) \<and>
   statesAfterPolls icao (earlier @ [response]) = parseAircraftStates response icao"
proof -
  have m: "map (\<lambda>s. s\<lparr>Timestamp := 0\<rparr>) (parseAircraftStates (response\<lparr>Time := t\<rparr>) icao) =
     map (\<lambda>s. s\<lparr>Timestamp := 0\<rparr>) (parseAircraftStates (response\<lparr>Time := t'\<rparr>) icao)" for icao
    by (simp add: parseAircraftStates_map_filter stateOf_Time [of t _ _ t'])
  have l: "length (parseAircraftStates (response\<lparr>Time := t\<rparr>) icao) =
     length (parseAircraftStates (response\<lparr>Time := t'\<rparr>) icao)" for icao
    by (simp add: parseAircraftStates_map_filter)
  have h: "(case parseAircraftStates (response\<lparr>Time := t\<rparr>) icao of [] \<Rightarrow> []
            | s # _ \<Rightarrow> [LogSample (Icao24 s) (Callsign s) (Altitude s) (Heading s)]) =
           (case parseAircraftStates (response\<lparr>Time := t'\<rparr>) icao of [] \<Rightarrow> []
            | s # _ \<Rightarrow> [LogSample (Icao24 s) (Callsign s) (Altitude s) (Heading s)])" for icao
    by (cases "filter (\<lambda>a. 17 \<le> length a) (States response)")
       (simp_all add: parseAircraftStates_map_filter stateOf_def Let_def)
  have p: "processAirport airport (Responded code (Decodable (response\<lparr>Time := t\<rparr>))) =
     processAirport airport (Responded code (Decodable (response\<lparr>Time := t'\<rparr>)))"
    by (simp add: processAirport_def Let_def l h)
  have s: "statesAfterPolls icao (earlier @ [response]) = parseAircraftStates response icao"
    by (simp add: statesAfterPolls_def)
  from p m s show ?thesis by (simp add: parseAircraftStates_map_filter)
qed

section \<open>Properties of the dashboard\<close>

subsection \<open>The order of the advisories shown\<close>

lemma compareAdvisories_orderKey:
  "compareAdvisories a b \<le> 0 \<longleftrightarrow> orderKey a \<le> orderKey b"
  by (auto simp: compareAdvisories_def orderKey_def)

lemma insertSorted_insort_key:
  "insertSorted compareAdvisories x ys = insort_key orderKey x ys"
  by (induction ys) (simp_all add: compareAdvisories_orderKey)

lemma sort_js_sort_key: "sort_js compareAdvisories xs = sort_key orderKey xs"
  by (induction xs) (simp_all add: sort_js_def sort_key_def insertSorted_insort_key)

lemma orderKey_le:
  "orderKey a \<le> orderKey b \<longleftrightarrow>
     severity a > severity b \<or> (severity a = severity b \<and> timestamp a \<ge> timestamp b)"
  by (auto simp: orderKey_def)

lemma orderKey_eq:
  "orderKey a = (- s, - t) \<longleftrightarrow> severity a = s \<and> timestamp a = t"
  by (auto simp: orderKey_def)

lemma sort_js_sorted:
  "sorted_wrt (\<lambda>a b. severity a > severity b \<or>
                      (severity a = severity b \<and> timestamp a \<ge> timestamp b))
     (sort_js compareAdvisories xs)"
proof -
  have "sorted (map orderKey (sort_key orderKey xs))" by (rule sorted_sort_key)
  then have "sorted_wrt (\<lambda>a b. orderKey a \<le> orderKey b) (sort_key orderKey xs)"
    by (simp add: sorted_map)
  then show ?thesis by (simp add: sort_js_sort_key orderKey_le)
qed

lemma sort_js_stable:
  "filter (\<lambda>a. severity a = s \<and> timestamp a = t) (sort_js compareAdvisories xs) =
   filter (\<lambda>a. severity a = s \<and> timestamp a = t) xs"
  using sort_key_stable [of orderKey "(- s, - t)" xs]
  by (simp add: sort_js_sort_key orderKey_eq)

text \<open>
  Claim C5, as stated, fails: the comparator looks at severity and time only. Two
  advisories that differ in their id alone come out in the order they went in, so the
  one with the greater id can come first, and one set of advisories has two output
  orders.
\<close>

theorem ties_keep_input_order_not_id_order:
  "severity advisoryA = severity advisoryB \<and> timestamp advisoryA = timestamp advisoryB \<and>
   id_advisory advisoryA < id_advisory advisoryB \<and>
   set [advisoryA, advisoryB] = set [advisoryB, advisoryA] \<and>
   sortedAdvisories [advisoryA, advisoryB] = [advisoryA, advisoryB] \<and>
   sortedAdvisories [advisoryB, advisoryA] = [advisoryB, advisoryA] \<and>
   sortedAdvisories [advisoryB, advisoryA] \<noteq> sortedAdvisories [advisoryA, advisoryB] \<and>
   \<not> sorted_wrt spec_before (sortedAdvisories [advisoryB, advisoryA])"
  by (simp add: sortedAdvisories_def sort_js_def compareAdvisories_def advisoryA_def
      advisoryB_def spec_before_def insert_commute)

text \<open>
  Claim C5, amended. The list shown, in the panel and on the page (there after the
  category filter), is a rearrangement of the advisories ordered by severity descending,
  then creation time descending; advisories equal in both keep their input order. The id
  plays no part.
\<close>

theorem sortedAdvisories_stable_by_severity_then_time:
  "sorted_wrt (\<lambda>a b. severity a > severity b \<or>
                      (severity a = severity b \<and> timestamp a \<ge> timestamp b))
     (sortedAdvisories advisories) \<and>
   mset (sortedAdvisories advisories) = mset advisories \<and>
   filter (\<lambda>a. severity a = s \<and> timestamp a = t) (sortedAdvisories advisories) =
     filter (\<lambda>a. severity a = s \<and> timestamp a = t) advisories \<and>
   sortedAdvisories_page filterCategory advisories =
     sortedAdvisories (filteredAdvisories filterCategory advisories)"
proof -
  have "mset (sortedAdvisories advisories) = mset advisories"
    by (simp add: sortedAdvisories_def sort_js_sort_key)
  then show ?thesis
    using sort_js_sorted [of advisories] sort_js_stable [of s t advisories]
    by (simp add: sortedAdvisories_def sortedAdvisories_page_def)
qed

subsection \<open>The colour of an approach path\<close>

text \<open>
  Claim C4, as stated, fails: the map computes a colour, not a severity, and the colour
  for one aircraft on the approach is the colour for none, where the specification's step
  function tells the two counts apart.
\<close>

theorem one_on_approach_is_green_like_none:
  "pathColor 0 = ''green'' \<and> pathColor 1 = ''green'' \<and> pathColor 1 = pathColor 0 \<and>
   spec_corridorSeverity 0 = None \<and> spec_corridorSeverity 1 = Some 2 \<and>
   spec_corridorSeverity 1 \<noteq> spec_corridorSeverity 0"
  by (simp add: pathColor_def spec_corridorSeverity_def)

text \<open>
  Claim C4, amended. The colour of the approach path of an active runway is a step
  function of the number of aircraft on the approach: green for none or one, orange for
  two, red for three or more. It never steps down as the number grows by one.
\<close>

theorem pathColor_steps:
  "pathColor n = (if n \<le> 1 then ''green'' else if n = 2 then ''orange'' else ''red'') \<and>
   colorRank (pathColor n) \<le> colorRank (pathColor (n + 1)) \<and>
   renderApproachPaths (Some airport) aircraft =
     Some (map (\<lambda>runway.
             if active runway
             then Some \<lparr>key = ''approach-'' @ id_runway runway,
                        positions = [approachStart runway, threshold1 runway],
                        color = pathColor (length (aircraftOnApproach runway aircraft)),
                        weight = 2, dashArray = ''10, 5''\<rparr>
             else None) (runways airport))"
proof (intro conjI)
  show "pathColor n = (if n \<le> 1 then ''green'' else if n = 2 then ''orange'' else ''red'')"
    by (cases "n = 0") (auto simp: pathColor_def)
  then show "colorRank (pathColor n) \<le> colorRank (pathColor (n + 1))"
    by (simp add: pathColor_def colorRank_def)
  show "renderApproachPaths (Some airport) aircraft =
     Some (map (\<lambda>runway.
             if active runway
             then Some \<lparr>key = ''approach-'' @ id_runway runway,
                        positions = [approachStart runway, threshold1 runway],
                        color = pathColor (length (aircraftOnApproach runway aircraft)),
                        weight = 2, dashArray = ''10, 5''\<rparr>
             else None) (runways airport))"
    by (simp add: renderApproachPaths_def if_distrib [of Some] cong: if_cong)
qed

subsection \<open>On the approach\<close>

lemma quadratic_along_segment:
  "(wx - t * vx) ^ 2 + (wy - t * vy) ^ 2 =
     wx ^ 2 + wy ^ 2 - 2 * t * (wx * vx + wy * vy) + t ^ 2 * (vx ^ 2 + vy ^ 2)"
  for wx wy vx vy t :: real
  by (simp add: power2_eq_square algebra_simps)

lemma clamped_foot_is_nearest:
  fixes k d2 :: real
  assumes "0 < d2"
  defines "u \<equiv> max 0 (min 1 (k / d2))"
  shows "- 2 * u * k + u ^ 2 * d2 \<le> - k + d2 / 4"
proof -
  consider "k \<le> 0" | "d2 \<le> k" | "0 < k" "k < d2" by linarith
  then show ?thesis
  proof cases
    case 1
    then have "k / d2 \<le> 0" using assms(1) by (simp add: divide_le_0_iff)
    then have "u = 0" unfolding u_def by simp
    with 1 assms(1) show ?thesis by simp
  next
    case 2
    then have "1 \<le> k / d2" using assms(1) by simp
    then have "u = 1" unfolding u_def by simp
    with 2 assms(1) show ?thesis by simp
  next
    case 3
    then have "0 < k / d2" "k / d2 < 1" using assms(1) by simp_all
    then have u: "u = k / d2" unfolding u_def by simp
    have "0 \<le> (k - d2 / 2) ^ 2" by simp
    then have "- (k ^ 2) \<le> (- k + d2 / 4) * d2"
      by (simp add: power2_eq_square algebra_simps)
    then have "- (k ^ 2) / d2 \<le> - k + d2 / 4"
      using assms(1) by (simp add: field_simps)
    moreover have "- 2 * u * k + u ^ 2 * d2 = - (k ^ 2) / d2"
      using assms(1) by (simp add: u power2_eq_square)
    ultimately show ?thesis by simp
  qed
qed

lemma spec_pointToSegment_le_midpoint:
  "spec_pointToSegment p s e \<le> dist_js p e s"
proof -
  define vx vy wx wy where "vx = fst e - fst s" and "vy = snd e - snd s"
    and "wx = fst p - fst s" and "wy = snd p - snd s"
  define d2 where "d2 = vx ^ 2 + vy ^ 2"
  define k where "k = wx * vx + wy * vy"
  define u where "u = (if d2 = 0 then 0 else max 0 (min 1 (k / d2)))"
  have spec: "spec_pointToSegment p s e = sqrt ((wx - u * vx) ^ 2 + (wy - u * vy) ^ 2)"
    by (simp add: spec_pointToSegment_def Let_def vx_def vy_def wx_def wy_def d2_def k_def u_def)
  have mid: "dist_js p e s = sqrt ((wx - 1 / 2 * vx) ^ 2 + (wy - 1 / 2 * vy) ^ 2)"
  proof -
    have "fst p - (fst e + fst s) / 2 = wx - 1 / 2 * vx"
      and "snd p - (snd e + snd s) / 2 = wy - 1 / 2 * vy"
      by (simp_all add: vx_def vy_def wx_def wy_def field_simps)
    then show ?thesis by (simp add: dist_js_def)
  qed
  have "(wx - u * vx) ^ 2 + (wy - u * vy) ^ 2 \<le> (wx - 1 / 2 * vx) ^ 2 + (wy - 1 / 2 * vy) ^ 2"
  proof (cases "d2 = 0")
    case True
    then have "vx = 0" "vy = 0" unfolding d2_def
      by (simp_all add: sum_power2_eq_zero_iff)
    then show ?thesis by simp
  next
    case False
    have "0 \<le> d2" unfolding d2_def by simp
    with False have pos: "0 < d2" by simp
    have "u = max 0 (min 1 (k / d2))" using False by (simp add: u_def)
    then have "- 2 * u * k + u ^ 2 * d2 \<le> - k + d2 / 4"
      using clamped_foot_is_nearest [OF pos, of k] by simp
    then show ?thesis
      unfolding quadratic_along_segment [of wx _ vx wy vy]
      by (simp add: d2_def k_def [symmetric] power2_eq_square)
  qed
  then show ?thesis unfolding spec mid by (rule real_sqrt_le_mono)
qed

lemma minDistLoop_two:
  "minDistLoop p [start, end_pos] None = Some (dist_js p start end_pos)"
  by simp

lemma approachStart_runway18: "approachStart runway18 = (37.3376 + 1 / 12, -121.9034)"
  by (simp add: approachStart_def runway18_def Let_def)

text \<open>
  Claim C1, as stated, fails: the map measures the distance to the middle of the corridor
  segment. An airborne, descending aircraft that is on the segment itself, half a
  nautical mile from the threshold, is at distance 0 from the segment and so on the
  corridor in the specification's sense, but 1/30 of a degree from the middle and not on
  the approach for the map.
\<close>

theorem on_short_final_but_not_on_approach:
  "active runway18 \<and> \<not> onGround shortFinal \<and> verticalRate shortFinal < 0 \<and>
   spec_pointToSegment (position_aircraft shortFinal) (threshold1 runway18)
     (approachStart runway18) = 0 \<and>
   spec_onCorridor 0.01 runway18 shortFinal \<and>
   dist_js (position_aircraft shortFinal) (approachStart runway18) (threshold1 runway18) = 1 / 30 \<and>
   \<not> onApproach runway18 shortFinal \<and>
   aircraftOnApproach runway18 [shortFinal] = []"
proof -
  have d: "dist_js (position_aircraft shortFinal) (approachStart runway18) (threshold1 runway18)
      = 1 / 30"
  proof -
    have "dist_js (position_aircraft shortFinal) (approachStart runway18) (threshold1 runway18)
      = sqrt ((1 / 30) ^ 2)"
      unfolding approachStart_runway18
      by (simp add: dist_js_def shortFinal_def runway18_def power2_eq_square)
    then show ?thesis by (simp only: real_sqrt_abs)
  qed
  have s: "spec_pointToSegment (position_aircraft shortFinal) (threshold1 runway18)
     (approachStart runway18) = 0"
    unfolding approachStart_runway18
    by (simp add: spec_pointToSegment_def shortFinal_def runway18_def Let_def power2_eq_square)
  have n: "\<not> onApproach runway18 shortFinal"
    using d by (simp add: onApproach_def Let_def)
  from d s n show ?thesis
    by (simp add: spec_onCorridor_def aircraftOnApproach_def shortFinal_def runway18_def)
qed

text \<open>
  Claim C1, amended. For a runway and an aircraft, the aircraft counts as on the approach
  iff it is not on the ground, its vertical rate is negative, and the distance (in
  degrees) from its position to the midpoint of the corridor segment is strictly less
  than 0.01; the aircraft counted for a runway are exactly those of the list that pass
  this test. The test is one-sided with respect to the specification: every aircraft it
  accepts lies within 0.01 of the segment in the point-to-segment distance.
\<close>

theorem onApproach_is_midpoint_test:
  "(onApproach runway a \<longleftrightarrow>
      \<not> onGround a \<and> verticalRate a < 0 \<and>
      dist_js (position_aircraft a) (approachStart runway) (threshold1 runway) < 0.01) \<and>
   dist_js (position_aircraft a) (approachStart runway) (threshold1 runway) =
     sqrt ((fst (position_aircraft a) -
              (fst (approachStart runway) + fst (threshold1 runway)) / 2) ^ 2 +
           (snd (position_aircraft a) -
              (snd (approachStart runway) + snd (threshold1 runway)) / 2) ^ 2) \<and>
   set (aircraftOnApproach runway aircraft) = {a \<in> set aircraft. onApproach runway a} \<and>
   (onApproach runway a \<longrightarrow> spec_onCorridor 0.01 runway a)"
proof -
  have on: "onApproach runway a \<longleftrightarrow>
      \<not> onGround a \<and> verticalRate a < 0 \<and>
      dist_js (position_aircraft a) (approachStart runway) (threshold1 runway) < 0.01"
    by (auto simp: onApproach_def Let_def)
  have "spec_onCorridor 0.01 runway a" if "onApproach runway a"
  proof -
    from that on have *: "\<not> onGround a" "verticalRate a < 0"
      "dist_js (position_aircraft a) (approachStart runway) (threshold1 runway) < 0.01"
      by simp_all
    have "spec_pointToSegment (position_aircraft a) (threshold1 runway) (approachStart runway)
        \<le> dist_js (position_aircraft a) (approachStart runway) (threshold1 runway)"
      by (rule spec_pointToSegment_le_midpoint)
    with * show ?thesis by (simp add: spec_onCorridor_def)
  qed
  with on show ?thesis by (auto simp: dist_js_def aircraftOnApproach_def)
qed

theorem onApproach_is_midpoint_test_witness:
  "onApproach runway18 midFinal \<and> spec_onCorridor 0.01 runway18 midFinal \<and>
   set (aircraftOnApproach runway18 [shortFinal, midFinal]) = {midFinal}"
proof -
  have d: "dist_js (position_aircraft midFinal) (approachStart runway18) (threshold1 runway18) = 0"
    unfolding approachStart_runway18
    by (simp add: dist_js_def midFinal_def shortFinal_def runway18_def)
  note t = onApproach_is_midpoint_test [of runway18 midFinal "[shortFinal, midFinal]"]
  have "onApproach runway18 midFinal \<longleftrightarrow>
      \<not> onGround midFinal \<and> verticalRate midFinal < 0 \<and>
      dist_js (position_aircraft midFinal) (approachStart runway18) (threshold1 runway18) < 0.01"
    using t by blast
  then have on: "onApproach runway18 midFinal"
    unfolding d by (simp add: midFinal_def shortFinal_def)
  then have sp: "spec_onCorridor 0.01 runway18 midFinal" using t by blast
  have d': "dist_js (position_aircraft shortFinal) (approachStart runway18) (threshold1 runway18)
      = sqrt ((1 / 30) ^ 2)"
    unfolding approachStart_runway18
    by (simp add: dist_js_def shortFinal_def runway18_def power2_eq_square)
  have "\<not> onApproach runway18 shortFinal"
    using d' by (simp add: onApproach_def Let_def real_sqrt_abs del: real_sqrt_abs2)
  moreover have "set (aircraftOnApproach runway18 [shortFinal, midFinal]) =
      {a \<in> set [shortFinal, midFinal]. onApproach runway18 a}"
    using t by blast
  ultimately have "set (aircraftOnApproach runway18 [shortFinal, midFinal]) = {midFinal}"
    using on by auto
  with on sp show ?thesis by blast
qed

section \<open>Properties of the API routes\<close>

lemma getProperty_MOCK_ADVISORIES_unknown:
  "airportId \<notin> set [''KRHV'', ''KPAO''] \<Longrightarrow> airportId \<notin> set objectPrototypeKeys \<Longrightarrow>
   getProperty (MOCK_ADVISORIES loaded) airportId = Undefined"
  by (simp add: getProperty_def MOCK_ADVISORIES_def)

lemma getProperty_MOCK_AIRCRAFT_unknown:
  "airportId \<notin> set [''KRHV'', ''KPAO''] \<Longrightarrow> airportId \<notin> set objectPrototypeKeys \<Longrightarrow>
   getProperty MOCK_AIRCRAFT airportId = Undefined"
  by (simp add: getProperty_def MOCK_AIRCRAFT_def)

lemma upperChar_not_lower: "upperChar c \<noteq> CHR ''o'' \<and> upperChar c \<noteq> CHR ''e''"
  by (simp add: upperChar_def)

lemma toUpperCase_not_lower:
  "CHR ''o'' \<notin> set (toUpperCase s) \<and> CHR ''e'' \<notin> set (toUpperCase s)"
proof -
  have "\<And>c. upperChar c \<noteq> CHR ''o''" and "\<And>c. upperChar c \<noteq> CHR ''e''"
    using upperChar_not_lower by simp_all
  then show ?thesis by (fastforce simp: toUpperCase_def)
qed

lemma toUpperCase_not_inherited: "toUpperCase s \<notin> set objectPrototypeKeys"
proof
  assume "toUpperCase s \<in> set objectPrototypeKeys"
  then have "CHR ''o'' \<in> set (toUpperCase s) \<or> CHR ''e'' \<in> set (toUpperCase s)"
    unfolding objectPrototypeKeys_def by auto
  then show False using toUpperCase_not_lower [of s] by simp
qed

lemma upperChar_idem: "upperChar (upperChar c) = upperChar c"
  by (simp add: upperChar_def)

lemma toUpperCase_idem: "toUpperCase (toUpperCase s) = toUpperCase s"
  by (simp add: toUpperCase_def upperChar_idem)

lemma toUpperCase_empty: "toUpperCase s = [] \<longleftrightarrow> s = []"
  by (simp add: toUpperCase_def)


lemma GET_aircraft_unknown:
  assumes "airportId \<noteq> []" and "airportId \<notin> set [''KRHV'', ''KPAO'']"
    and "airportId \<notin> set objectPrototypeKeys"
  shows "GET_aircraft random (Some airportId) = Inr (200, Listing [] 0 (Some airportId))"
  using assms by (simp add: GET_aircraft_def getProperty_MOCK_AIRCRAFT_unknown)

lemma GET_advisories_unknown:
  assumes "airportId \<noteq> []" and "airportId \<notin> set [''KRHV'', ''KPAO'']"
    and "airportId \<notin> set objectPrototypeKeys"
  shows "GET_advisories (MOCK_ADVISORIES loaded) reads (Some airportId) =
           Inr (200, Listing (if drawInject reads < 0.1 then [newAdvisory airportId reads] else [])
                       (if drawInject reads < 0.1 then 1 else 0) (Some airportId))"
  using assms
  by (simp add: GET_advisories_def getProperty_MOCK_ADVISORIES_unknown activeAdvisories_def
      Let_def)

lemma getProperty_MOCK_AIRPORTS_unknown:
  "toUpperCase code \<notin> set [''KRHV'', ''KPAO'', ''KSJC''] \<Longrightarrow>
   getProperty MOCK_AIRPORTS (toUpperCase code) = Undefined"
  using toUpperCase_not_inherited [of code]
  by (simp add: getProperty_def MOCK_AIRPORTS_def)

lemma getProperty_MOCK_WEATHER_unknown:
  "toUpperCase code \<notin> set [''KRHV'', ''KPAO'', ''KSJC''] \<Longrightarrow>
   getProperty (map (\<lambda>(k, weather). (k, weather\<lparr>time_weather := t\<rparr>)) (MOCK_WEATHER t))
     (toUpperCase code) = Undefined"
  using toUpperCase_not_inherited [of code]
  by (simp add: getProperty_def MOCK_WEATHER_def)

lemma GET_airports_unknown:
  assumes "code \<noteq> []" and "toUpperCase code \<notin> set [''KRHV'', ''KPAO'', ''KSJC'']"
  shows "GET_airports (Some code) =
           Inr (404, ErrorBody ''Airport not found'' ''AIRPORT_NOT_FOUND'')"
  using assms by (simp add: GET_airports_def getProperty_MOCK_AIRPORTS_unknown Let_def)

lemma GET_weather_unknown:
  assumes "code \<noteq> []" and "toUpperCase code \<notin> set [''KRHV'', ''KPAO'', ''KSJC'']"
  shows "GET_weather t (Some code) =
           Inr (404, ErrorBody ''Weather for specified airport not found'' ''WEATHER_NOT_FOUND'')"
  using assms
  by (simp add: GET_weather_def getProperty_MOCK_WEATHER_unknown Let_def
      del: set_simps)

lemma GET_airports_upper:
  "code \<noteq> [] \<Longrightarrow> GET_airports (Some code) = GET_airports (Some (toUpperCase code))"
  by (simp add: GET_airports_def toUpperCase_idem toUpperCase_empty Let_def)

lemma GET_weather_upper:
  "code \<noteq> [] \<Longrightarrow> GET_weather t (Some code) = GET_weather t (Some (toUpperCase code))"
  by (simp add: GET_weather_def toUpperCase_idem toUpperCase_empty Let_def)

lemma upper_krhv: "toUpperCase ''krhv'' = ''KRHV''"
  by (simp add: toUpperCase_def upperChar_def)

lemma GET_airports_krhv:
  "GET_airports (Some ''krhv'') = Inr (200, Single (snd (hd MOCK_AIRPORTS)))"
  by (simp add: GET_airports_def upper_krhv getProperty_def MOCK_AIRPORTS_def Let_def)

lemma GET_weather_krhv:
  "GET_weather t (Some ''krhv'') = Inr (200, Single (snd (hd (MOCK_WEATHER t))))"
  by (simp add: GET_weather_def upper_krhv getProperty_def MOCK_WEATHER_def Let_def)

text \<open>
  A parameter that names a member of \<open>Object.prototype\<close> is found by the lookup of
  the aircraft and advisories routes, and the handler throws on the value it finds.
\<close>

lemma GET_aircraft_constructor: "GET_aircraft random (Some ''constructor'') = Inl TypeError"
  by (simp add: GET_aircraft_def getProperty_def MOCK_AIRCRAFT_def objectPrototypeKeys_def)

lemma GET_advisories_constructor:
  "GET_advisories (MOCK_ADVISORIES loaded) reads (Some ''constructor'') = Inl TypeError"
  by (simp add: GET_advisories_def getProperty_def MOCK_ADVISORIES_def objectPrototypeKeys_def)

subsection \<open>Unknown airports\<close>

text \<open>
  Claim C10, as stated, fails: for an airport id absent from the table the advisories
  route answers 200 with a list that is not empty whenever its first draw falls below
  0.1, because the generated advisory is pushed for any id.
\<close>

theorem unknown_airport_gets_random_advisory:
  "''KXYZ'' \<notin> set (map fst (MOCK_ADVISORIES 0)) \<and>
   GET_advisories (MOCK_ADVISORIES 0) (readsAt 0 0.05) (Some ''KXYZ'') =
     Inr (200,
       Listing [\<lparr>id_advisory = ''ADV-KXYZ-PATTERN-0'', timestamp = 0,
                  message = ''NEW PATTERN ADVISORY: Generated for demonstration purposes.'',
                  severity = 3, category = ''PATTERN'', expires = 600000\<rparr>] 1
         (Some ''KXYZ''))"
  by (simp add: GET_advisories_def getProperty_def MOCK_ADVISORIES_def objectPrototypeKeys_def
      activeAdvisories_def readsAt_def newAdvisory_def randomCategory_def categories_def
      randomSeverity_def showInt_def Let_def)

text \<open>
  Claim C10, amended. For every non-empty airport id that is neither a key of the mock
  tables nor the name of a member of \<open>Object.prototype\<close>, the aircraft route answers
  200 with the empty list, and the advisories route answers 200 with the empty list when
  its first draw is at least 0.1 and with the one generated advisory otherwise. For every
  non-empty ASCII code whose upper-case form is not a key, the airports and weather routes
  answer 404 with their error object. These two routes look the upper-cased parameter up
  (\<open>krhv\<close> finds \<open>KRHV\<close>); the aircraft and advisories routes look the parameter
  up as it is (\<open>krhv\<close> is unknown to them).
\<close>

theorem unknown_airport_responses:
  "(airportId \<noteq> [] \<and> airportId \<notin> set [''KRHV'', ''KPAO''] \<and>
    airportId \<notin> set objectPrototypeKeys \<longrightarrow>
      GET_aircraft random (Some airportId) = Inr (200, Listing [] 0 (Some airportId)) \<and>
      GET_advisories (MOCK_ADVISORIES loaded) reads (Some airportId) =
        Inr (200, Listing (if drawInject reads < 0.1 then [newAdvisory airportId reads] else [])
                    (if drawInject reads < 0.1 then 1 else 0) (Some airportId))) \<and>
   (code \<noteq> [] \<and> isAscii code \<and> toUpperCase code \<notin> set [''KRHV'', ''KPAO'', ''KSJC''] \<longrightarrow>
      GET_airports (Some code) =
        Inr (404, ErrorBody ''Airport not found'' ''AIRPORT_NOT_FOUND'') \<and>
      GET_weather t (Some code) =
        Inr (404, ErrorBody ''Weather for specified airport not found'' ''WEATHER_NOT_FOUND'')) \<and>
   (code \<noteq> [] \<and> isAscii code \<longrightarrow>
      GET_airports (Some code) = GET_airports (Some (toUpperCase code)) \<and>
      GET_weather t (Some code) = GET_weather t (Some (toUpperCase code))) \<and>
   GET_airports (Some ''krhv'') = Inr (200, Single (snd (hd MOCK_AIRPORTS))) \<and>
   GET_weather t (Some ''krhv'') = Inr (200, Single (snd (hd (MOCK_WEATHER t)))) \<and>
   GET_aircraft random (Some ''krhv'') = Inr (200, Listing [] 0 (Some ''krhv'')) \<and>
   GET_advisories (MOCK_ADVISORIES loaded) reads (Some ''krhv'') =
     Inr (200, Listing (if drawInject reads < 0.1 then [newAdvisory ''krhv'' reads] else [])
                 (if drawInject reads < 0.1 then 1 else 0) (Some ''krhv''))"
proof -
  have k: "''krhv'' \<noteq> []" "''krhv'' \<notin> set [''KRHV'', ''KPAO'']"
    "''krhv'' \<notin> set objectPrototypeKeys"
    by (simp_all add: objectPrototypeKeys_def)
  show ?thesis
    using GET_aircraft_unknown [of airportId random]
      GET_advisories_unknown [of airportId loaded reads]
      GET_airports_unknown [of code] GET_weather_unknown [of code t]
      GET_airports_upper [of code] GET_weather_upper [of code t] GET_airports_krhv GET_weather_krhv [of t]
      GET_aircraft_unknown [OF k, of random] GET_advisories_unknown [OF k, of loaded reads]
    by blast
qed

theorem unknown_airport_responses_witness:
  "GET_aircraft (\<lambda>k. 0.5) (Some ''KXYZ'') = Inr (200, Listing [] 0 (Some ''KXYZ'')) \<and>
   GET_advisories (MOCK_ADVISORIES 0) (readsAt 0 0.5) (Some ''KXYZ'') =
     Inr (200, Listing [] 0 (Some ''KXYZ'')) \<and>
   GET_airports (Some ''kxyz'') = Inr (404, ErrorBody ''Airport not found'' ''AIRPORT_NOT_FOUND'') \<and>
   GET_weather 0 (Some ''kxyz'') =
     Inr (404, ErrorBody ''Weather for specified airport not found'' ''WEATHER_NOT_FOUND'') \<and>
   GET_airports (Some ''kxyz'') = GET_airports (Some (toUpperCase ''kxyz''))"
proof -
  have a: "''KXYZ'' \<noteq> [] \<and> ''KXYZ'' \<notin> set [''KRHV'', ''KPAO''] \<and>
    ''KXYZ'' \<notin> set objectPrototypeKeys"
    by (simp add: objectPrototypeKeys_def)
  have b: "''kxyz'' \<noteq> [] \<and> isAscii ''kxyz'' \<and>
    toUpperCase ''kxyz'' \<notin> set [''KRHV'', ''KPAO'', ''KSJC'']"
    by (simp add: isAscii_def toUpperCase_def upperChar_def)
  have c: "\<not> drawInject (readsAt 0 0.5) < 0.1" by (simp add: readsAt_def)
  note inst = unknown_airport_responses
    [where airportId = "''KXYZ''" and code = "''kxyz''" and random = "\<lambda>k. 0.5"
       and loaded = 0 and reads = "readsAt 0 0.5" and t = 0]
  have p1: "GET_aircraft (\<lambda>k. 0.5) (Some ''KXYZ'') = Inr (200, Listing [] 0 (Some ''KXYZ'')) \<and>
   GET_advisories (MOCK_ADVISORIES 0) (readsAt 0 0.5) (Some ''KXYZ'') =
     Inr (200, Listing [] 0 (Some ''KXYZ''))"
    using inst a c by simp
  have p2: "GET_airports (Some ''kxyz'') =
      Inr (404, ErrorBody ''Airport not found'' ''AIRPORT_NOT_FOUND'') \<and>
    GET_weather 0 (Some ''kxyz'') =
      Inr (404, ErrorBody ''Weather for specified airport not found'' ''WEATHER_NOT_FOUND'')"
    using inst b by blast
  have p3: "GET_airports (Some ''kxyz'') = GET_airports (Some (toUpperCase ''kxyz''))"
    using inst b by blast
  from p1 p2 p3 show ?thesis by blast
qed

subsection \<open>Expiry\<close>

text \<open>
  Claim C3, as stated, fails twice. A query for an airport at the very instant an
  advisory expires omits it (the filter keeps an advisory only while its expiry is
  strictly later than now), and a query that names no airport, or the empty one, lists
  every advisory, long expired or not.
\<close>

theorem expiry_boundary_and_unfiltered_listing:
  "map expires (concat (objectValues (MOCK_ADVISORIES 0))) = [600000, 900000, 3600000, 3600000] \<and>
   map id_advisory
     (listed (GET_advisories (MOCK_ADVISORIES 0) (readsAt 600000 0.5) (Some ''KRHV''))) =
     [''ADV-KRHV-RUNWAY-1'', ''ADV-KRHV-WEATHER-1''] \<and>
   map id_advisory (listed (GET_advisories (MOCK_ADVISORIES 0) (readsAt 4000000 0.5) None)) =
     [''ADV-KRHV-PATTERN-1'', ''ADV-KRHV-RUNWAY-1'', ''ADV-KRHV-WEATHER-1'',
      ''ADV-KPAO-WEATHER-1''] \<and>
   map id_advisory (listed (GET_advisories (MOCK_ADVISORIES 0) (readsAt 4000000 0.5) (Some []))) =
     [''ADV-KRHV-PATTERN-1'', ''ADV-KRHV-RUNWAY-1'', ''ADV-KRHV-WEATHER-1'',
      ''ADV-KPAO-WEATHER-1'']"
  by (simp add: GET_advisories_def allAdvisories_def objectValues_def getProperty_def
      MOCK_ADVISORIES_def activeAdvisories_def readsAt_def listed_def Let_def)

text \<open>
  Claim C3, amended. For a query that names an airport of the table, a stored advisory
  with expiry \<open>T\<close> is among the advisories returned iff the query's time is strictly
  less than \<open>T\<close>: it is omitted at every time from \<open>T\<close> on and included at every
  earlier time, the clock not running backwards during the request. (The list returned
  is the stored advisories that pass this filter, followed by the generated advisory when
  the first draw is below 0.1; a clock that ran backwards could make the generated
  advisory equal to a stored one that has expired.)
\<close>

theorem per_airport_query_keeps_unexpired:
  assumes "airportId \<noteq> []" and "getProperty table airportId = Own advisories"
    and "adv \<in> set advisories"
  shows "GET_advisories table reads (Some airportId) =
           Inr (200,
             Listing (activeAdvisories advisories reads @
                      (if drawInject reads < 0.1 then [newAdvisory airportId reads] else []))
               (length (activeAdvisories advisories reads) +
                (if drawInject reads < 0.1 then 1 else 0))
               (Some airportId)) \<and>
         (adv \<in> set (activeAdvisories advisories reads) \<longleftrightarrow> now reads < expires adv) \<and>
         (adv \<in> set (listed (GET_advisories table reads (Some airportId))) \<longleftrightarrow>
            now reads < expires adv \<or>
            (drawInject reads < 0.1 \<and> adv = newAdvisory airportId reads)) \<and>
         (now reads \<le> nowExpires reads \<longrightarrow>
            (adv \<in> set (listed (GET_advisories table reads (Some airportId))) \<longleftrightarrow>
               now reads < expires adv))"
proof -
  have act: "adv \<in> set (activeAdvisories advisories reads) \<longleftrightarrow> now reads < expires adv"
    using assms(3) by (simp add: activeAdvisories_def)
  have get: "GET_advisories table reads (Some airportId) =
           Inr (200,
             Listing (activeAdvisories advisories reads @
                      (if drawInject reads < 0.1 then [newAdvisory airportId reads] else []))
               (length (activeAdvisories advisories reads) +
                (if drawInject reads < 0.1 then 1 else 0))
               (Some airportId))"
    using assms(1,2) by (simp add: GET_advisories_def Let_def)
  have mem: "adv \<in> set (listed (GET_advisories table reads (Some airportId))) \<longleftrightarrow>
            now reads < expires adv \<or>
            (drawInject reads < 0.1 \<and> adv = newAdvisory airportId reads)"
    unfolding get using act by (auto simp: listed_def)
  have "adv \<in> set (listed (GET_advisories table reads (Some airportId))) \<longleftrightarrow>
          now reads < expires adv"
    if "now reads \<le> nowExpires reads"
  proof -
    have "now reads < expires (newAdvisory airportId reads)"
      using that by (simp add: newAdvisory_def)
    with mem show ?thesis by auto
  qed
  with act get mem show ?thesis by blast
qed

theorem per_airport_query_keeps_unexpired_witness:
  "''KRHV'' \<noteq> [] \<and>
   getProperty (MOCK_ADVISORIES 0) ''KRHV'' = Own (snd (hd (MOCK_ADVISORIES 0))) \<and>
   hd (snd (hd (MOCK_ADVISORIES 0))) \<in> set (snd (hd (MOCK_ADVISORIES 0))) \<and>
   expires (hd (snd (hd (MOCK_ADVISORIES 0)))) = 600000 \<and>
   hd (snd (hd (MOCK_ADVISORIES 0)))
     \<in> set (listed (GET_advisories (MOCK_ADVISORIES 0) (readsAt 599999 0.5) (Some ''KRHV''))) \<and>
   hd (snd (hd (MOCK_ADVISORIES 0)))
     \<notin> set (listed (GET_advisories (MOCK_ADVISORIES 0) (readsAt 600000 0.5) (Some ''KRHV'')))"
proof -
  have a: "''KRHV'' \<noteq> []" by simp
  have b: "getProperty (MOCK_ADVISORIES 0) ''KRHV'' = Own (snd (hd (MOCK_ADVISORIES 0)))"
    by (simp add: getProperty_def MOCK_ADVISORIES_def)
  have c: "hd (snd (hd (MOCK_ADVISORIES 0))) \<in> set (snd (hd (MOCK_ADVISORIES 0)))"
    by (simp add: MOCK_ADVISORIES_def)
  have d: "expires (hd (snd (hd (MOCK_ADVISORIES 0)))) = 600000"
    by (simp add: MOCK_ADVISORIES_def)
  have e: "now (readsAt 599999 0.5) = 599999" "now (readsAt 600000 0.5) = 600000"
    "\<not> drawInject (readsAt 599999 0.5) < 0.1" "\<not> drawInject (readsAt 600000 0.5) < 0.1"
    by (simp_all add: readsAt_def)
  have h: "now (readsAt 599999 0.5) \<le> nowExpires (readsAt 599999 0.5)"
    "now (readsAt 600000 0.5) \<le> nowExpires (readsAt 600000 0.5)"
    by (simp_all add: readsAt_def)
  have f: "hd (snd (hd (MOCK_ADVISORIES 0)))
     \<in> set (listed (GET_advisories (MOCK_ADVISORIES 0) (readsAt 599999 0.5) (Some ''KRHV'')))"
  proof -
    have "hd (snd (hd (MOCK_ADVISORIES 0)))
        \<in> set (listed (GET_advisories (MOCK_ADVISORIES 0) (readsAt 599999 0.5) (Some ''KRHV'')))
      \<longleftrightarrow> now (readsAt 599999 0.5) < expires (hd (snd (hd (MOCK_ADVISORIES 0))))"
      using per_airport_query_keeps_unexpired [OF a b c, of "readsAt 599999 0.5"] h(1)
      by blast
    then show ?thesis using d e by simp
  qed
  have g: "hd (snd (hd (MOCK_ADVISORIES 0)))
     \<notin> set (listed (GET_advisories (MOCK_ADVISORIES 0) (readsAt 600000 0.5) (Some ''KRHV'')))"
  proof -
    have "hd (snd (hd (MOCK_ADVISORIES 0)))
        \<in> set (listed (GET_advisories (MOCK_ADVISORIES 0) (readsAt 600000 0.5) (Some ''KRHV'')))
      \<longleftrightarrow> now (readsAt 600000 0.5) < expires (hd (snd (hd (MOCK_ADVISORIES 0))))"
      using per_airport_query_keeps_unexpired [OF a b c, of "readsAt 600000 0.5"] h(2)
      by blast
    then show ?thesis using d e by simp
  qed
  from a b c d f g show ?thesis by blast
qed

subsection \<open>Random advisories\<close>

text \<open>
  Claim C2, as stated, fails: two requests for the same airport at the same clock
  readings, differing in one draw of \<open>Math.random\<close> only, get different advisories,
  and so do two runs of the panel's timer.
\<close>

theorem advisories_differ_by_draw_only:
  "(readsAt 0 0.05)\<lparr>drawInject := 0.5\<rparr> = readsAt 0 0.5 \<and>
   map id_advisory
     (listed (GET_advisories (MOCK_ADVISORIES 0) (readsAt 0 0.05) (Some ''KRHV''))) =
     [''ADV-KRHV-PATTERN-1'', ''ADV-KRHV-RUNWAY-1'', ''ADV-KRHV-WEATHER-1'',
      ''ADV-KRHV-PATTERN-0''] \<and>
   map id_advisory
     (listed (GET_advisories (MOCK_ADVISORIES 0) (readsAt 0 0.5) (Some ''KRHV''))) =
     [''ADV-KRHV-PATTERN-1'', ''ADV-KRHV-RUNWAY-1'', ''ADV-KRHV-WEATHER-1''] \<and>
   GET_advisories (MOCK_ADVISORIES 0) (readsAt 0 0.05) (Some ''KRHV'') \<noteq>
   GET_advisories (MOCK_ADVISORIES 0) (readsAt 0 0.5) (Some ''KRHV'') \<and>
   (panelReadsAt 0 0.1)\<lparr>drawAdd := 0.5\<rparr> = panelReadsAt 0 0.5 \<and>
   map id_advisory (panelTick ''KRHV'' (panelReadsAt 0 0.1) []) = [''ADV-KRHV-TRAFFIC-0''] \<and>
   panelTick ''KRHV'' (panelReadsAt 0 0.5) [] = []"
  by (simp add: GET_advisories_def getProperty_def
      MOCK_ADVISORIES_def activeAdvisories_def readsAt_def listed_def Let_def
      newAdvisory_def randomCategory_def categories_def randomSeverity_def showInt_def
      panelTick_def panelReadsAt_def panelAdvisory_def)

text \<open>
  Claim C2, amended. Advisory generation depends on a random source, through the one
  advisory it may add: two requests with the same table, parameter and time of the expiry
  filter get the same answer when the first draw of each is at least 0.1, whatever their
  other draws; a request that names no airport gets the whole table; and a run of the
  panel's timer leaves the list as it is when its draw is at least 0.2 and puts the
  generated advisory in front otherwise.
\<close>

theorem advisories_fixed_unless_injected:
  "(0.1 \<le> drawInject reads \<and> 0.1 \<le> drawInject reads' \<and> now reads = now reads' \<longrightarrow>
      GET_advisories table reads param = GET_advisories table reads' param) \<and>
   GET_advisories table reads None = allAdvisories table \<and>
   (0.2 \<le> drawAdd panelReads \<longrightarrow> panelTick airportId panelReads prev = prev) \<and>
   (drawAdd panelReads < 0.2 \<longrightarrow>
      panelTick airportId panelReads prev = panelAdvisory airportId panelReads # prev)"
  by (auto simp: GET_advisories_def activeAdvisories_def panelTick_def Let_def
      split: option.splits property.splits)

theorem advisories_fixed_unless_injected_witness:
  "GET_advisories (MOCK_ADVISORIES 0) (readsAt 0 0.5) (Some ''KRHV'') =
   GET_advisories (MOCK_ADVISORIES 0) ((readsAt 0 0.7)\<lparr>drawSeverity := 0.1\<rparr>) (Some ''KRHV'') \<and>
   panelTick ''KRHV'' (panelReadsAt 0 0.5) [advisoryA] = [advisoryA] \<and>
   panelTick ''KRHV'' (panelReadsAt 0 0.1) [advisoryA] =
     [panelAdvisory ''KRHV'' (panelReadsAt 0 0.1), advisoryA]"
proof -
  have a: "0.1 \<le> drawInject (readsAt 0 0.5) \<and>
    0.1 \<le> drawInject ((readsAt 0 0.7)\<lparr>drawSeverity := 0.1\<rparr>) \<and>
    now (readsAt 0 0.5) = now ((readsAt 0 0.7)\<lparr>drawSeverity := 0.1\<rparr>)"
    by (simp add: readsAt_def)
  have b: "0.2 \<le> drawAdd (panelReadsAt 0 0.5)" "drawAdd (panelReadsAt 0 0.1) < 0.2"
    by (simp_all add: panelReadsAt_def)
  from advisories_fixed_unless_injected
    [where reads = "readsAt 0 0.5" and reads' = "(readsAt 0 0.7)\<lparr>drawSeverity := 0.1\<rparr>"
       and table = "MOCK_ADVISORIES 0" and param = "Some ''KRHV''"
       and panelReads = "panelReadsAt 0 0.5" and airportId = "''KRHV''"
       and prev = "[advisoryA]"]
    advisories_fixed_unless_injected
    [where panelReads = "panelReadsAt 0 0.1" and airportId = "''KRHV''"
       and prev = "[advisoryA]"] a b
  show ?thesis by blast
qed

end
